theory Spec2Isabelle
  imports Complex_Main
begin

section \<open>Numbers and helpers\<close>

text \<open>
  The three source files are three versions of the component \<open>ParticleBackground\<close>:
  the constellation network (\<open>src/components/ParticleBackground.tsx\<close>), the repulsion
  field and the grid glow (both in \<open>unnamed/part_000\<close>).

  A TypeScript \<open>number\<close> is modelled as a \<open>real\<close>: every formula is read with exact
  arithmetic, rounding is not modelled. The only way a computation of these files can
  leave the finite numbers on finite inputs of moderate size is a division by zero, and
  the divisions whose divisor is not a constant (by the distance, in the repulsion field)
  are modelled as a partial operation (\<open>js_div\<close>, result \<open>None\<close>). \<open>window.innerWidth\<close> and \<open>window.innerHeight\<close> are
  non-negative integers and are modelled as \<open>nat\<close>. \<open>Math.random()\<close> is modelled as
  a sequence \<open>rnd :: nat \<Rightarrow> real\<close> of draws, consumed in the order of the calls.
\<close>

definition lerp :: "real \<Rightarrow> real \<Rightarrow> real \<Rightarrow> real" where
  \<comment> \<open>the same function in all three files\<close>
  "lerp a b t = a + (b - a) * t"

definition dist_xy :: "real \<Rightarrow> real \<Rightarrow> real \<Rightarrow> real \<Rightarrow> real" where
  \<comment> \<open>\<open>dist\<close> of ParticleBackground.tsx\<close>
  "dist_xy ax ay bx by = (let dx = ax - bx; dy = ay - by in sqrt (dx * dx + dy * dy))"

definition js_div :: "real \<Rightarrow> real \<Rightarrow> real option" where
  \<comment> \<open>\<open>a / b\<close> with a divisor that is not a constant: \<open>None\<close> stands for the non-finite
      result (\<open>Infinity\<close> or \<open>NaN\<close>) of a division by zero\<close>
  "js_div a b = (if b = 0 then None else Some (a / b))"

section \<open>The constellation network (src/components/ParticleBackground.tsx)\<close>

subsection \<open>Tuning knobs\<close>

definition NODE_DENSITY :: real where "NODE_DENSITY = 0.00008"
definition CONNECT_DIST :: real where "CONNECT_DIST = 180"
definition MOUSE_CONNECT_DIST :: real where "MOUSE_CONNECT_DIST = 250"
definition MOUSE_ATTRACT :: real where "MOUSE_ATTRACT = 0.012"
definition MOUSE_RADIUS :: real where "MOUSE_RADIUS = 280"
definition DRIFT_SPEED :: real where "DRIFT_SPEED = 0.15"
definition LERP_RETURN :: real where "LERP_RETURN = 0.03"
definition NODE_MIN_R :: real where "NODE_MIN_R = 1.0"
definition NODE_MAX_R :: real where "NODE_MAX_R = 2.2"

definition LINE_BASE_COLOR :: "nat \<times> nat \<times> nat" where "LINE_BASE_COLOR = (160, 160, 175)"
definition MOUSE_LINE_COLOR :: "nat \<times> nat \<times> nat" where "MOUSE_LINE_COLOR = (225, 112, 68)"

subsection \<open>State\<close>

record node =
  n_x :: real
  n_y :: real
  n_ox :: real
  n_oy :: real
  n_vx :: real
  n_vy :: real
  n_r :: real
  n_phase :: real

record mouse =
  mouse_x :: real
  mouse_y :: real
  mouse_active :: bool

record net_state =
  s_W :: nat
  s_H :: nat
  s_nodes :: "node list"
  s_mouse :: mouse
  s_t :: real

text \<open>What a frame paints, in the order of the calls on the drawing context.\<close>

datatype draw_op =
    ClearRect real real
  | Stroke real real real real "nat \<times> nat \<times> nat" real real
      \<comment> \<open>from, to, colour, opacity, line width\<close>
  | Halo real real real
      \<comment> \<open>radial gradient around a node: centre, outer radius\<close>
  | Dot real real real bool
      \<comment> \<open>core dot: centre, radius, brand colour or not\<close>
  | Hub real real
      \<comment> \<open>the cursor glow hub\<close>

subsection \<open>seed\<close>

definition seed_count :: "nat \<Rightarrow> nat \<Rightarrow> nat" where
  "seed_count W H = (let area = real (W * H) in nat (max 40 \<lfloor>area * NODE_DENSITY\<rfloor>))"

definition seed_node :: "nat \<Rightarrow> nat \<Rightarrow> (nat \<Rightarrow> real) \<Rightarrow> nat \<Rightarrow> node" where
  \<comment> \<open>the body of the loop; iteration \<open>i\<close> makes the draws \<open>6 * i\<close> to \<open>6 * i + 5\<close>\<close>
  "seed_node W H rnd i =
     (let x = rnd (6 * i) * real W;
          y = rnd (6 * i + 1) * real H
      in \<lparr> n_x = x, n_y = y, n_ox = x, n_oy = y,
           n_vx = (rnd (6 * i + 2) - 0.5) * DRIFT_SPEED * 2,
           n_vy = (rnd (6 * i + 3) - 0.5) * DRIFT_SPEED * 2,
           n_r = NODE_MIN_R + rnd (6 * i + 4) * (NODE_MAX_R - NODE_MIN_R),
           n_phase = rnd (6 * i + 5) * pi * 2 \<rparr>)"

definition seed :: "nat \<Rightarrow> nat \<Rightarrow> (nat \<Rightarrow> real) \<Rightarrow> node list" where
  "seed W H rnd = map (seed_node W H rnd) [0 ..< seed_count W H]"

definition resize :: "nat \<Rightarrow> nat \<Rightarrow> (nat \<Rightarrow> real) \<Rightarrow> net_state \<Rightarrow> net_state" where
  "resize w h rnd s = s \<lparr> s_W := w, s_H := h, s_nodes := seed w h rnd \<rparr>"

subsection \<open>animate, part 1: the node positions\<close>

definition drift_wrap :: "nat \<Rightarrow> nat \<Rightarrow> node \<Rightarrow> node" where
  \<comment> \<open>lines 95 to 102: drift the origin, then the four wrap tests in the source's order\<close>
  "drift_wrap W H n =
     (let ox1 = n_ox n + n_vx n;
          oy1 = n_oy n + n_vy n;
          ox2 = (if ox1 < - 20 then real W + 20 else ox1);
          ox3 = (if ox2 > real W + 20 then - 20 else ox2);
          oy2 = (if oy1 < - 20 then real H + 20 else oy1);
          oy3 = (if oy2 > real H + 20 then - 20 else oy2)
      in n \<lparr> n_ox := ox3, n_oy := oy3 \<rparr>)"

definition target :: "mouse \<Rightarrow> node \<Rightarrow> real \<times> real" where
  \<comment> \<open>lines 105 to 115: \<open>(tx, ty)\<close>\<close>
  "target m n =
     (if mouse_active m then
        (let d = dist_xy (n_ox n) (n_oy n) (mouse_x m) (mouse_y m) in
         if d < MOUSE_RADIUS \<and> d > 0 then
           (let strength = (1 - d / MOUSE_RADIUS) * MOUSE_ATTRACT in
            (n_ox n + (mouse_x m - n_ox n) * strength * 12,
             n_oy n + (mouse_y m - n_oy n) * strength * 12))
         else (n_ox n, n_oy n))
      else (n_ox n, n_oy n))"

definition update_node :: "nat \<Rightarrow> nat \<Rightarrow> mouse \<Rightarrow> node \<Rightarrow> node" where
  \<comment> \<open>one iteration of the loop of lines 93 to 120\<close>
  "update_node W H m n =
     (let n1 = drift_wrap W H n;
          (tx, ty) = target m n1
      in n1 \<lparr> n_x := lerp (n_x n1) tx (LERP_RETURN + 0.04),
              n_y := lerp (n_y n1) ty (LERP_RETURN + 0.04) \<rparr>)"

subsection \<open>animate, part 2: the edges\<close>

definition node_edge :: "node \<Rightarrow> node \<Rightarrow> draw_op list" where
  \<comment> \<open>lines 129 to 139: the body of the inner loop\<close>
  "node_edge a b =
     (let d = dist_xy (n_x a) (n_y a) (n_x b) (n_y b) in
      if d < CONNECT_DIST then
        (let opacity = (1 - d / CONNECT_DIST) * 0.35 in
         [Stroke (n_x a) (n_y a) (n_x b) (n_y b) LINE_BASE_COLOR opacity 0.6])
      else [])"

definition mouse_edge :: "mouse \<Rightarrow> node \<Rightarrow> draw_op list" where
  \<comment> \<open>lines 143 to 155\<close>
  "mouse_edge m a =
     (if mouse_active m then
        (let dm = dist_xy (n_x a) (n_y a) (mouse_x m) (mouse_y m) in
         if dm < MOUSE_CONNECT_DIST then
           (let opacity = (1 - dm / MOUSE_CONNECT_DIST) * 0.55 in
            [Stroke (n_x a) (n_y a) (mouse_x m) (mouse_y m) MOUSE_LINE_COLOR opacity 0.8])
         else [])
      else [])"

fun draw_edges :: "mouse \<Rightarrow> node list \<Rightarrow> draw_op list" where
  \<comment> \<open>the loop over \<open>i\<close>: the nodes after \<open>nodes[i]\<close> are those with \<open>j > i\<close>\<close>
  "draw_edges m [] = []"
| "draw_edges m (a # rest) =
     concat (map (node_edge a) rest) @ mouse_edge m a @ draw_edges m rest"

subsection \<open>animate, parts 3 and 4: the nodes and the cursor hub\<close>

definition draw_node :: "real \<Rightarrow> mouse \<Rightarrow> node \<Rightarrow> draw_op list" where
  \<comment> \<open>lines 159 to 187; \<open>r\<close> is a local constant of the loop body\<close>
  "draw_node t m n =
     (let pulse = 1 + sin (t * 2 + n_phase n) * 0.15;
          r = n_r n * pulse;
          glow = (mouse_active m \<and>
                  dist_xy (n_x n) (n_y n) (mouse_x m) (mouse_y m) < MOUSE_CONNECT_DIST * 0.6)
      in (if glow then [Halo (n_x n) (n_y n) (r * 5)] else []) @ [Dot (n_x n) (n_y n) r glow])"

definition draw_hub :: "mouse \<Rightarrow> draw_op list" where
  "draw_hub m = (if mouse_active m then [Hub (mouse_x m) (mouse_y m)] else [])"

definition animate :: "net_state \<Rightarrow> net_state \<times> draw_op list" where
  \<comment> \<open>one frame: the new state and what was painted\<close>
  "animate s =
     (let t1 = s_t s + 0.008;
          nodes1 = map (update_node (s_W s) (s_H s) (s_mouse s)) (s_nodes s)
      in (s \<lparr> s_t := t1, s_nodes := nodes1 \<rparr>,
          ClearRect (real (s_W s)) (real (s_H s))
            # draw_edges (s_mouse s) nodes1
            @ concat (map (draw_node t1 (s_mouse s)) nodes1)
            @ draw_hub (s_mouse s)))"

subsection \<open>Event handlers\<close>

definition onMouseMove :: "real \<Rightarrow> real \<Rightarrow> net_state \<Rightarrow> net_state" where
  "onMouseMove cx cy s = s \<lparr> s_mouse := \<lparr> mouse_x = cx, mouse_y = cy, mouse_active = True \<rparr> \<rparr>"

definition onMouseLeave :: "net_state \<Rightarrow> net_state" where
  "onMouseLeave s = s \<lparr> s_mouse := (s_mouse s) \<lparr> mouse_active := False \<rparr> \<rparr>"

definition init_mouse :: mouse where
  "init_mouse = \<lparr> mouse_x = - 9999, mouse_y = - 9999, mouse_active = False \<rparr>"

section \<open>The repulsion field (unnamed/part_000, first file)\<close>

subsection \<open>Configuration\<close>

definition COLORS :: "string list" where
  "COLORS = [''#0A192F'', ''#FDE047'', ''#A855F7'', ''#e17044'']"
definition PARTICLE_COUNT_FACTOR :: real where "PARTICLE_COUNT_FACTOR = 80"
definition MOUSE_RADIUS_rep :: real where "MOUSE_RADIUS_rep = 150"
definition REPULSION_STRENGTH :: real where "REPULSION_STRENGTH = 8"
definition LERP_SPEED :: real where "LERP_SPEED = 0.04"
definition DRIFT_SPEED_rep :: real where "DRIFT_SPEED_rep = 0.3"

subsection \<open>State\<close>

record particle =
  p_x :: real
  p_y :: real
  p_baseX :: real
  p_baseY :: real
  p_vx :: real
  p_vy :: real
  p_radius :: real
  p_color :: string
  p_alpha :: real

record pointer =
  pt_x :: real
  pt_y :: real

record rep_state =
  r_width :: nat
  r_height :: nat
  r_particles :: "particle list"
  r_mouse :: pointer

datatype fill_op = Fill real real real string real
  \<comment> \<open>a filled circle: centre, radius, \<open>fillStyle\<close>, \<open>globalAlpha\<close>\<close>

definition offscreen :: pointer where
  "offscreen = \<lparr> pt_x = - 9999, pt_y = - 9999 \<rparr>"

subsection \<open>initParticles\<close>

definition initParticles_count :: "nat \<Rightarrow> nat" where
  "initParticles_count width = nat \<lfloor>(real width / 1000) * PARTICLE_COUNT_FACTOR\<rfloor>"

definition pick_color :: "real \<Rightarrow> string" where
  \<comment> \<open>\<open>COLORS[Math.floor(u * COLORS.length)]\<close>; an index out of range reads \<open>undefined\<close>\<close>
  "pick_color u =
     (let k = \<lfloor>u * real (length COLORS)\<rfloor> in
      if 0 \<le> k \<and> nat k < length COLORS then COLORS ! nat k else ''undefined'')"

definition init_particle :: "nat \<Rightarrow> nat \<Rightarrow> (nat \<Rightarrow> real) \<Rightarrow> nat \<Rightarrow> particle" where
  \<comment> \<open>iteration \<open>i\<close> makes the draws \<open>7 * i\<close> to \<open>7 * i + 6\<close>\<close>
  "init_particle width height rnd i =
     (let x = rnd (7 * i) * real width;
          y = rnd (7 * i + 1) * real height
      in \<lparr> p_x = x, p_y = y, p_baseX = x, p_baseY = y,
           p_vx = (rnd (7 * i + 2) - 0.5) * DRIFT_SPEED_rep * 2,
           p_vy = (rnd (7 * i + 3) - 0.5) * DRIFT_SPEED_rep * 2,
           p_radius = rnd (7 * i + 4) * 2.5 + 1,
           p_color = pick_color (rnd (7 * i + 5)),
           p_alpha = rnd (7 * i + 6) * 0.6 + 0.2 \<rparr>)"

definition initParticles :: "nat \<Rightarrow> nat \<Rightarrow> (nat \<Rightarrow> real) \<Rightarrow> particle list" where
  "initParticles width height rnd =
     map (init_particle width height rnd) [0 ..< initParticles_count width]"

subsection \<open>animate\<close>

definition drift_wrap_rep :: "nat \<Rightarrow> nat \<Rightarrow> particle \<Rightarrow> particle" where
  \<comment> \<open>lines 98 to 105\<close>
  "drift_wrap_rep width height p =
     (let bx1 = p_baseX p + p_vx p;
          by1 = p_baseY p + p_vy p;
          bx2 = (if bx1 < - 10 then real width + 10 else bx1);
          bx3 = (if bx2 > real width + 10 then - 10 else bx2);
          by2 = (if by1 < - 10 then real height + 10 else by1);
          by3 = (if by2 > real height + 10 then - 10 else by2)
      in p \<lparr> p_baseX := bx3, p_baseY := by3 \<rparr>)"

definition repel_target :: "pointer \<Rightarrow> particle \<Rightarrow> (real \<times> real) option" where
  \<comment> \<open>lines 109 to 136: \<open>(targetX, targetY)\<close>; \<open>None\<close> when a division by zero is made\<close>
  "repel_target m p =
     (let dx = p_baseX p - pt_x m;
          dy = p_baseY p - pt_y m;
          dist = sqrt (dx * dx + dy * dy)
      in if dist < MOUSE_RADIUS_rep \<and> dist > 0 then
           (let force = (1 - dist / MOUSE_RADIUS_rep) * REPULSION_STRENGTH in
            case js_div dx dist of
              None \<Rightarrow> None
            | Some ux \<Rightarrow>
               (case js_div dy dist of
                  None \<Rightarrow> None
                | Some uy \<Rightarrow>
                   (let pushX = ux * force * MOUSE_RADIUS_rep * 0.1;
                        pushY = uy * force * MOUSE_RADIUS_rep * 0.1
                    in Some (p_baseX p + pushX, p_baseY p + pushY))))
         else Some (p_baseX p, p_baseY p))"

definition animate_particle ::
    "nat \<Rightarrow> nat \<Rightarrow> pointer \<Rightarrow> particle \<Rightarrow> (particle \<times> fill_op) option" where
  \<comment> \<open>one iteration of the loop of lines 96 to 150: the particle after it and what it paints\<close>
  "animate_particle width height m p =
     (let p1 = drift_wrap_rep width height p in
      case repel_target m p1 of
        None \<Rightarrow> None
      | Some (targetX, targetY) \<Rightarrow>
         (let p2 = p1 \<lparr> p_x := lerp (p_x p1) targetX LERP_SPEED,
                        p_y := lerp (p_y p1) targetY LERP_SPEED \<rparr>
          in Some (p2, Fill (p_x p2) (p_y p2) (p_radius p2) (p_color p2) (p_alpha p2))))"

fun animate_particles ::
    "nat \<Rightarrow> nat \<Rightarrow> pointer \<Rightarrow> particle list \<Rightarrow> (particle list \<times> fill_op list) option" where
  "animate_particles width height m [] = Some ([], [])"
| "animate_particles width height m (p # ps) =
     (case animate_particle width height m p of
        None \<Rightarrow> None
      | Some (p', f) \<Rightarrow>
         (case animate_particles width height m ps of
            None \<Rightarrow> None
          | Some (ps', fs) \<Rightarrow> Some (p' # ps', f # fs)))"

definition animate_rep :: "rep_state \<Rightarrow> (rep_state \<times> fill_op list) option" where
  "animate_rep s =
     (case animate_particles (r_width s) (r_height s) (r_mouse s) (r_particles s) of
        None \<Rightarrow> None
      | Some (ps', fs) \<Rightarrow> Some (s \<lparr> r_particles := ps' \<rparr>, fs))"

subsection \<open>Mouse tracking\<close>

definition handleMouseMove :: "real \<Rightarrow> real \<Rightarrow> rep_state \<Rightarrow> rep_state" where
  "handleMouseMove cx cy s = s \<lparr> r_mouse := \<lparr> pt_x = cx, pt_y = cy \<rparr> \<rparr>"

definition handleMouseLeave :: "rep_state \<Rightarrow> rep_state" where
  \<comment> \<open>\<open>handleTouchEnd\<close> is the same\<close>
  "handleMouseLeave s = s \<lparr> r_mouse := offscreen \<rparr>"

section \<open>The grid glow (unnamed/part_000, second file)\<close>

text \<open>
  Only the state of the grid version is modelled: the raw and the smoothed mouse, the
  activity flag, and the test that decides whether the cursor hub is painted. The loops
  that paint the grid read the smoothed mouse and write no state.
\<close>

definition GLOW_RADIUS :: real where "GLOW_RADIUS = 220"

record grid_state =
  g_rawMouse :: pointer
  g_mouse :: pointer
  g_mouseActive :: bool

definition grid_init :: grid_state where
  "grid_init = \<lparr> g_rawMouse = offscreen, g_mouse = offscreen, g_mouseActive = False \<rparr>"

definition animate_mouse :: "grid_state \<Rightarrow> grid_state" where
  \<comment> \<open>lines 258 to 265 of \<open>animate\<close>\<close>
  "animate_mouse g =
     (let mx1 = lerp (pt_x (g_mouse g)) (pt_x (g_rawMouse g)) 0.12;
          my1 = lerp (pt_y (g_mouse g)) (pt_y (g_rawMouse g)) 0.12;
          mx2 = (if \<not> g_mouseActive g then lerp mx1 (- 9999) 0.05 else mx1);
          my2 = (if \<not> g_mouseActive g then lerp my1 (- 9999) 0.05 else my1)
      in g \<lparr> g_mouse := \<lparr> pt_x = mx2, pt_y = my2 \<rparr> \<rparr>)"

definition hub_painted :: "grid_state \<Rightarrow> bool" where
  \<comment> \<open>line 377, read after the smoothing of the same frame\<close>
  "hub_painted g = (g_mouseActive g \<or> pt_x (g_mouse g) > - 5000)"

definition grid_onMouseMove :: "real \<Rightarrow> real \<Rightarrow> grid_state \<Rightarrow> grid_state" where
  "grid_onMouseMove cx cy g =
     g \<lparr> g_rawMouse := \<lparr> pt_x = cx, pt_y = cy \<rparr>, g_mouseActive := True \<rparr>"

definition grid_onMouseLeave :: "grid_state \<Rightarrow> grid_state" where
  \<comment> \<open>\<open>onTouchEnd\<close> is the same\<close>
  "grid_onMouseLeave g = g \<lparr> g_mouseActive := False \<rparr>"

section \<open>Runs of frames and events\<close>

text \<open>
  The touch handlers of the network, and the life of a collection of particles between two
  resizes: a sequence of frames and pointer events. A resize seeds a new collection.
\<close>

definition onTouchMove :: "(real \<times> real) list \<Rightarrow> net_state \<Rightarrow> net_state" where
  \<comment> \<open>the argument is \<open>e.touches\<close>, as the list of the \<open>(clientX, clientY)\<close>\<close>
  "onTouchMove touches s =
     (case touches of
        [] \<Rightarrow> s
      | (cx, cy) # _ \<Rightarrow> s \<lparr> s_mouse := \<lparr> mouse_x = cx, mouse_y = cy, mouse_active = True \<rparr> \<rparr>)"

definition onTouchEnd :: "net_state \<Rightarrow> net_state" where
  "onTouchEnd s = s \<lparr> s_mouse := (s_mouse s) \<lparr> mouse_active := False \<rparr> \<rparr>"

datatype event = Frame | MouseMove real real | MouseLeave | TouchMove "(real \<times> real) list" | TouchEnd

fun step :: "net_state \<Rightarrow> event \<Rightarrow> net_state" where
  "step s Frame = fst (animate s)"
| "step s (MouseMove cx cy) = onMouseMove cx cy s"
| "step s MouseLeave = onMouseLeave s"
| "step s (TouchMove touches) = onTouchMove touches s"
| "step s TouchEnd = onTouchEnd s"

fun run :: "net_state \<Rightarrow> event list \<Rightarrow> net_state" where
  "run s [] = s"
| "run s (e # es) = run (step s e) es"

datatype rep_event = RFrame | RMouseMove real real | RMouseLeave

fun rep_run :: "rep_state \<Rightarrow> rep_event list \<Rightarrow> rep_state option" where
  "rep_run s [] = Some s"
| "rep_run s (RFrame # es) =
     (case animate_rep s of None \<Rightarrow> None | Some (s', fs) \<Rightarrow> rep_run s' es)"
| "rep_run s (RMouseMove cx cy # es) = rep_run (handleMouseMove cx cy s) es"
| "rep_run s (RMouseLeave # es) = rep_run (handleMouseLeave s) es"

section \<open>Derived notions used in the statements\<close>

definition push :: "pointer \<Rightarrow> particle \<Rightarrow> real \<times> real" where
  \<comment> \<open>the offset \<open>(pushX, pushY)\<close> that \<open>repel_target\<close> adds to the home position, with
      the constants written out; \<open>(0, 0)\<close> when the test of line 120 fails\<close>
  "push m p =
     (let dx = p_baseX p - pt_x m; dy = p_baseY p - pt_y m; d = sqrt (dx * dx + dy * dy)
      in if d < 150 \<and> d > 0
         then (dx / d * ((1 - d / 150) * 8) * 150 * 0.1, dy / d * ((1 - d / 150) * 8) * 150 * 0.1)
         else (0, 0))"

definition home_in_range :: "nat \<Rightarrow> nat \<Rightarrow> node \<Rightarrow> bool" where
  \<comment> \<open>the wrap invariant of the network, margin 20\<close>
  "home_in_range W H n =
     (- 20 \<le> n_ox n \<and> n_ox n \<le> real W + 20 \<and> - 20 \<le> n_oy n \<and> n_oy n \<le> real H + 20)"

definition base_in_range :: "nat \<Rightarrow> nat \<Rightarrow> particle \<Rightarrow> bool" where
  \<comment> \<open>the wrap invariant of the repulsion field, margin 10\<close>
  "base_in_range W H p =
     (- 10 \<le> p_baseX p \<and> p_baseX p \<le> real W + 10 \<and>
      - 10 \<le> p_baseY p \<and> p_baseY p \<le> real H + 10)"

definition fixed_of_node :: "node \<Rightarrow> real \<times> real \<times> real \<times> real" where
  \<comment> \<open>the fields of a node that only \<open>seed\<close> writes\<close>
  "fixed_of_node n = (n_vx n, n_vy n, n_r n, n_phase n)"

definition fixed_of_particle :: "particle \<Rightarrow> real \<times> real \<times> real \<times> string \<times> real" where
  \<comment> \<open>the fields of a particle that only \<open>initParticles\<close> writes\<close>
  "fixed_of_particle p = (p_vx p, p_vy p, p_radius p, p_color p, p_alpha p)"

definition displacement :: "mouse \<Rightarrow> node \<Rightarrow> real" where
  \<comment> \<open>how far the target of a node is from its home position\<close>
  "displacement m n = dist_xy (fst (target m n)) (snd (target m n)) (n_ox n) (n_oy n)"

definition attract_strength :: "real \<Rightarrow> real" where
  \<comment> \<open>the fraction of the way to the cursor, as a function of the distance\<close>
  "attract_strength d = (1 - d / MOUSE_RADIUS) * MOUSE_ATTRACT * 12"

definition attract_displacement :: "real \<Rightarrow> real" where
  \<comment> \<open>the displacement of the attraction model as a function of the distance,
      following the test of line 109\<close>
  "attract_displacement d =
     (if d < MOUSE_RADIUS \<and> d > 0 then d * attract_strength d else 0)"

definition repel_magnitude :: "real \<Rightarrow> real" where
  \<comment> \<open>the length of the push of the repulsion model as a function of the distance,
      following the test of line 120\<close>
  "repel_magnitude d =
     (if d < MOUSE_RADIUS_rep \<and> d > 0
      then (1 - d / MOUSE_RADIUS_rep) * REPULSION_STRENGTH * MOUSE_RADIUS_rep * 0.1 else 0)"

definition render_gap :: "node \<Rightarrow> real" where
  \<comment> \<open>the distance between the rendered position and the home position of a node\<close>
  "render_gap n = dist_xy (n_x n) (n_y n) (n_ox n) (n_oy n)"

definition render_gap_rep :: "particle \<Rightarrow> real" where
  \<comment> \<open>the same for a particle of the repulsion field\<close>
  "render_gap_rep p = dist_xy (p_x p) (p_y p) (p_baseX p) (p_baseY p)"

definition inactive_rest :: "real \<Rightarrow> real" where
  \<comment> \<open>the fixed point of one coordinate of \<open>animate_mouse\<close> while the mouse is
      inactive and the raw coordinate is \<open>r\<close>\<close>
  "inactive_rest r = (0.114 * r - 499.95) / 0.164"

subsection \<open>Concrete inputs\<close>

definition node_at :: "real \<Rightarrow> real \<Rightarrow> real \<Rightarrow> real \<Rightarrow> node" where
  \<comment> \<open>a node as \<open>seed\<close> makes it: drawn at its origin, with the given drift velocity\<close>
  "node_at x y vx vy =
     \<lparr> n_x = x, n_y = y, n_ox = x, n_oy = y, n_vx = vx, n_vy = vy, n_r = 1, n_phase = 0 \<rparr>"

definition particle_at :: "real \<Rightarrow> real \<Rightarrow> real \<Rightarrow> real \<Rightarrow> particle" where
  \<comment> \<open>a particle as \<open>initParticles\<close> makes it\<close>
  "particle_at x y vx vy =
     \<lparr> p_x = x, p_y = y, p_baseX = x, p_baseY = y, p_vx = vx, p_vy = vy, p_radius = 1,
       p_color = ''#e17044'', p_alpha = 0.5 \<rparr>"

definition displaced_node :: node where
  \<comment> \<open>a node at rest whose rendered position is 50 away from its home position\<close>
  "displaced_node = (node_at 100 50 0 0) \<lparr> n_x := 130, n_y := 90 \<rparr>"

definition displaced_particle :: particle where
  "displaced_particle = (particle_at 100 50 0 0) \<lparr> p_x := 130, p_y := 90 \<rparr>"

definition cursor_at_origin :: mouse where
  "cursor_at_origin = \<lparr> mouse_x = 0, mouse_y = 0, mouse_active = True \<rparr>"

definition pair_of_nodes :: "node list" where
  "pair_of_nodes = [node_at 0 0 0 0, node_at 90 0 0 0]"

definition grid_left_after :: "nat \<Rightarrow> real \<Rightarrow> real \<Rightarrow> grid_state" where
  \<comment> \<open>the mouse moves to \<open>(rx, ry)\<close>, \<open>j\<close> frames are painted, the mouse leaves\<close>
  "grid_left_after j rx ry =
     grid_onMouseLeave ((animate_mouse ^^ j) (grid_onMouseMove rx ry grid_init))"

definition grid_left_at :: "real \<Rightarrow> real \<Rightarrow> grid_state" where
  \<comment> \<open>the mouse has rested at \<open>(rx, ry)\<close>, the smoothed mouse has arrived there, and
      the mouse leaves\<close>
  "grid_left_at rx ry =
     grid_onMouseLeave
       \<lparr> g_rawMouse = \<lparr> pt_x = rx, pt_y = ry \<rparr>, g_mouse = \<lparr> pt_x = rx, pt_y = ry \<rparr>,
         g_mouseActive = True \<rparr>"

section \<open>What a frame writes\<close>

lemma drift_wrap_ox:
  "n_ox (drift_wrap W H n) =
     (if n_ox n + n_vx n < - 20 then real W + 20
      else if n_ox n + n_vx n > real W + 20 then - 20 else n_ox n + n_vx n)"
  by (simp add: drift_wrap_def Let_def)

lemma drift_wrap_oy:
  "n_oy (drift_wrap W H n) =
     (if n_oy n + n_vy n < - 20 then real H + 20
      else if n_oy n + n_vy n > real H + 20 then - 20 else n_oy n + n_vy n)"
  by (simp add: drift_wrap_def Let_def)

lemma drift_wrap_rest:
  "n_x (drift_wrap W H n) = n_x n" "n_y (drift_wrap W H n) = n_y n"
  "n_vx (drift_wrap W H n) = n_vx n" "n_vy (drift_wrap W H n) = n_vy n"
  "n_r (drift_wrap W H n) = n_r n" "n_phase (drift_wrap W H n) = n_phase n"
  by (simp_all add: drift_wrap_def Let_def)

lemma update_node_sel:
  "n_ox (update_node W H m n) = n_ox (drift_wrap W H n)"
  "n_oy (update_node W H m n) = n_oy (drift_wrap W H n)"
  "n_vx (update_node W H m n) = n_vx n" "n_vy (update_node W H m n) = n_vy n"
  "n_r (update_node W H m n) = n_r n" "n_phase (update_node W H m n) = n_phase n"
  "n_x (update_node W H m n) =
     lerp (n_x n) (fst (target m (drift_wrap W H n))) (LERP_RETURN + 0.04)"
  "n_y (update_node W H m n) =
     lerp (n_y n) (snd (target m (drift_wrap W H n))) (LERP_RETURN + 0.04)"
  by (simp_all add: update_node_def Let_def split_def drift_wrap_rest)

lemma animate_nodes:
  "s_nodes (fst (animate s)) = map (update_node (s_W s) (s_H s) (s_mouse s)) (s_nodes s)"
  "s_W (fst (animate s)) = s_W s" "s_H (fst (animate s)) = s_H s"
  "s_mouse (fst (animate s)) = s_mouse s"
  by (simp_all add: animate_def Let_def)

lemma drift_wrap_rep_bx:
  "p_baseX (drift_wrap_rep W H p) =
     (if p_baseX p + p_vx p < - 10 then real W + 10
      else if p_baseX p + p_vx p > real W + 10 then - 10 else p_baseX p + p_vx p)"
  by (simp add: drift_wrap_rep_def Let_def)

lemma drift_wrap_rep_by:
  "p_baseY (drift_wrap_rep W H p) =
     (if p_baseY p + p_vy p < - 10 then real H + 10
      else if p_baseY p + p_vy p > real H + 10 then - 10 else p_baseY p + p_vy p)"
  by (simp add: drift_wrap_rep_def Let_def)

lemma drift_wrap_rep_rest:
  "p_x (drift_wrap_rep W H p) = p_x p" "p_y (drift_wrap_rep W H p) = p_y p"
  "p_vx (drift_wrap_rep W H p) = p_vx p" "p_vy (drift_wrap_rep W H p) = p_vy p"
  "p_radius (drift_wrap_rep W H p) = p_radius p" "p_color (drift_wrap_rep W H p) = p_color p"
  "p_alpha (drift_wrap_rep W H p) = p_alpha p"
  by (simp_all add: drift_wrap_rep_def Let_def)

lemma repel_target_eq:
  "repel_target m p = Some (p_baseX p + fst (push m p), p_baseY p + snd (push m p))"
  by (simp add: repel_target_def push_def js_div_def Let_def MOUSE_RADIUS_rep_def
      REPULSION_STRENGTH_def)

lemma animate_particle_eq:
  "animate_particle W H m p =
     (let p1 = drift_wrap_rep W H p;
          p2 = p1 \<lparr> p_x := lerp (p_x p) (p_baseX p1 + fst (push m p1)) LERP_SPEED,
                    p_y := lerp (p_y p) (p_baseY p1 + snd (push m p1)) LERP_SPEED \<rparr>
      in Some (p2, Fill (p_x p2) (p_y p2) (p_radius p) (p_color p) (p_alpha p)))"
  by (simp add: animate_particle_def repel_target_eq Let_def drift_wrap_rep_rest)

lemma drift_wrap_in_range: "home_in_range W H (drift_wrap W H n)"
  by (simp add: home_in_range_def drift_wrap_ox drift_wrap_oy)

lemma update_node_in_range: "home_in_range W H (update_node W H m n)"
  using drift_wrap_in_range [of W H n] by (simp add: home_in_range_def update_node_sel)

lemma drift_wrap_rep_in_range: "base_in_range W H (drift_wrap_rep W H p)"
  by (simp add: base_in_range_def drift_wrap_rep_bx drift_wrap_rep_by)

lemma animate_particle_base:
  assumes "animate_particle W H m p = Some (p', f)"
  shows "p_baseX p' = p_baseX (drift_wrap_rep W H p)" "p_baseY p' = p_baseY (drift_wrap_rep W H p)"
    "p_vx p' = p_vx p" "p_vy p' = p_vy p" "p_radius p' = p_radius p" "p_color p' = p_color p"
    "p_alpha p' = p_alpha p"
  using assms by (auto simp add: animate_particle_eq Let_def drift_wrap_rep_rest)

lemma animate_particle_total: "\<exists>p' f. animate_particle W H m p = Some (p', f)"
  by (simp add: animate_particle_eq Let_def)

lemma animate_particles_total:
  "\<exists>ps' fs. animate_particles W H m ps = Some (ps', fs) \<and> length ps' = length ps
     \<and> list_all (base_in_range W H) ps'
     \<and> map p_vx ps' = map p_vx ps \<and> map p_vy ps' = map p_vy ps
     \<and> map p_radius ps' = map p_radius ps \<and> map p_color ps' = map p_color ps
     \<and> map p_alpha ps' = map p_alpha ps"
proof (induction ps)
  case Nil
  show ?case by simp
next
  case (Cons p ps)
  obtain p' f where 1: "animate_particle W H m p = Some (p', f)"
    using animate_particle_total by blast
  from Cons obtain ps' fs where 2: "animate_particles W H m ps = Some (ps', fs)"
    and 3: "length ps' = length ps" "list_all (base_in_range W H) ps'"
     "map p_vx ps' = map p_vx ps" "map p_vy ps' = map p_vy ps"
     "map p_radius ps' = map p_radius ps" "map p_color ps' = map p_color ps"
     "map p_alpha ps' = map p_alpha ps"
    by blast
  have "base_in_range W H p'"
    using drift_wrap_rep_in_range [of W H p] animate_particle_base(1,2) [OF 1]
    by (simp add: base_in_range_def)
  with 1 2 3 animate_particle_base(3-7) [OF 1] show ?case by simp
qed

lemma update_node_fixed: "fixed_of_node (update_node W H m n) = fixed_of_node n"
  by (simp add: fixed_of_node_def update_node_sel)

lemma step_fixed: "map fixed_of_node (s_nodes (step s e)) = map fixed_of_node (s_nodes s)"
  by (cases e)
    (simp_all add: animate_nodes update_node_fixed onMouseMove_def onMouseLeave_def
      onTouchMove_def onTouchEnd_def split: list.splits)

lemma run_fixed: "map fixed_of_node (s_nodes (run s es)) = map fixed_of_node (s_nodes s)"
  by (induction es arbitrary: s) (simp_all add: step_fixed)

lemma animate_particle_fixed:
  "\<exists>p' f. animate_particle W H m p = Some (p', f) \<and> fixed_of_particle p' = fixed_of_particle p
     \<and> f = Fill (p_x p') (p_y p') (p_radius p) (p_color p) (p_alpha p)"
  by (simp add: animate_particle_eq Let_def fixed_of_particle_def drift_wrap_rep_rest)

lemma animate_particles_fixed:
  "\<exists>ps' fs. animate_particles W H m ps = Some (ps', fs)
     \<and> map fixed_of_particle ps' = map fixed_of_particle ps"
proof (induction ps)
  case Nil
  show ?case by simp
next
  case (Cons p ps)
  obtain p' f where 1: "animate_particle W H m p = Some (p', f)"
      "fixed_of_particle p' = fixed_of_particle p"
    using animate_particle_fixed by blast
  from Cons obtain ps' fs where 2: "animate_particles W H m ps = Some (ps', fs)"
      "map fixed_of_particle ps' = map fixed_of_particle ps"
    by blast
  from 1 2 show ?case by simp
qed

lemma animate_rep_fixed:
  "\<exists>s' fs. animate_rep s = Some (s', fs)
     \<and> map fixed_of_particle (r_particles s') = map fixed_of_particle (r_particles s)"
proof -
  obtain ps' fs where "animate_particles (r_width s) (r_height s) (r_mouse s) (r_particles s)
      = Some (ps', fs)" "map fixed_of_particle ps' = map fixed_of_particle (r_particles s)"
    using animate_particles_fixed by blast
  then show ?thesis by (simp add: animate_rep_def)
qed

lemma rep_run_fixed:
  "\<exists>s'. rep_run s es = Some s'
     \<and> map fixed_of_particle (r_particles s') = map fixed_of_particle (r_particles s)"
proof (induction es arbitrary: s)
  case Nil
  show ?case by simp
next
  case (Cons e es)
  show ?case
  proof (cases e)
    case RFrame
    obtain s1 fs where 1: "animate_rep s = Some (s1, fs)"
      "map fixed_of_particle (r_particles s1) = map fixed_of_particle (r_particles s)"
      using animate_rep_fixed by blast
    from Cons [of s1] obtain s' where "rep_run s1 es = Some s'"
      "map fixed_of_particle (r_particles s') = map fixed_of_particle (r_particles s1)"
      by blast
    with 1 RFrame show ?thesis by simp
  next
    case (RMouseMove cx cy)
    with Cons [of "handleMouseMove cx cy s"] show ?thesis
      by (simp add: handleMouseMove_def)
  next
    case RMouseLeave
    with Cons [of "handleMouseLeave s"] show ?thesis
      by (simp add: handleMouseLeave_def)
  qed
qed

section \<open>Seeding\<close>

lemma seed_count_1920_1080: "seed_count 1920 1080 = 165"
proof -
  have "\<lfloor>real (1920 * 1080) * NODE_DENSITY\<rfloor> = 165"
    by (simp add: NODE_DENSITY_def floor_eq_iff)
  then show ?thesis by (simp add: seed_count_def Let_def)
qed

lemma length_seed: "length (seed W H rnd) = seed_count W H"
  by (simp add: seed_def)

lemma seed_node_bounds:
  assumes "\<forall>k. 0 \<le> rnd k \<and> rnd k < 1"
  shows "n_x (seed_node W H rnd i) = n_ox (seed_node W H rnd i)"
    "n_y (seed_node W H rnd i) = n_oy (seed_node W H rnd i)"
    "0 \<le> n_x (seed_node W H rnd i)" "n_x (seed_node W H rnd i) \<le> real W"
    "0 \<le> n_y (seed_node W H rnd i)" "n_y (seed_node W H rnd i) \<le> real H"
proof -
  have a: "0 \<le> rnd (6 * i)" "rnd (6 * i) \<le> 1" "0 \<le> rnd (6 * i + 1)" "rnd (6 * i + 1) \<le> 1"
    using assms by (simp_all add: less_imp_le)
  show "n_x (seed_node W H rnd i) = n_ox (seed_node W H rnd i)"
    "n_y (seed_node W H rnd i) = n_oy (seed_node W H rnd i)"
    by (simp_all add: seed_node_def Let_def)
  show "0 \<le> n_x (seed_node W H rnd i)" "0 \<le> n_y (seed_node W H rnd i)"
    using a by (simp_all add: seed_node_def Let_def)
  show "n_x (seed_node W H rnd i) \<le> real W"
    using mult_right_le_one_le [of "real W" "rnd (6 * i)"] a
    by (simp add: seed_node_def Let_def mult.commute)
  show "n_y (seed_node W H rnd i) \<le> real H"
    using mult_right_le_one_le [of "real H" "rnd (6 * i + 1)"] a
    by (simp add: seed_node_def Let_def mult.commute)
qed

section \<open>Distances\<close>

lemma dist_xy_eq: "dist_xy ax ay bx by = sqrt ((ax - bx)\<^sup>2 + (ay - by)\<^sup>2)"
  by (simp add: dist_xy_def Let_def power2_eq_square)

lemma dist_xy_nonneg: "0 \<le> dist_xy ax ay bx by"
  by (simp add: dist_xy_eq)

lemma dist_xy_commute: "dist_xy ax ay bx by = dist_xy bx by ax ay"
  by (simp add: dist_xy_eq power2_commute)

lemma sqrt_scaled: "sqrt ((a * f)\<^sup>2 + (b * f)\<^sup>2) = \<bar>f\<bar> * sqrt (a\<^sup>2 + b\<^sup>2)"
proof -
  have "(a * f)\<^sup>2 + (b * f)\<^sup>2 = f\<^sup>2 * (a\<^sup>2 + b\<^sup>2)"
    by (simp add: power_mult_distrib algebra_simps)
  then show ?thesis by (simp add: real_sqrt_mult)
qed

lemma dist_xy_offset: "dist_xy (ox + a * f) (oy + b * f) ox oy = \<bar>f\<bar> * sqrt (a\<^sup>2 + b\<^sup>2)"
  by (simp add: dist_xy_eq sqrt_scaled)

lemma dist_xy_ge_x: "\<bar>ax - bx\<bar> \<le> dist_xy ax ay bx by"
  unfolding dist_xy_eq by (rule real_sqrt_ge_abs1)

lemma dist_xy_axis: "dist_xy a 0 b 0 = \<bar>a - b\<bar>"
  by (simp add: dist_xy_eq)

lemma sqrt_unit_scaled:
  assumes "0 < sqrt (a\<^sup>2 + b\<^sup>2)" "0 \<le> c"
  shows "sqrt ((a / sqrt (a\<^sup>2 + b\<^sup>2) * c)\<^sup>2 + (b / sqrt (a\<^sup>2 + b\<^sup>2) * c)\<^sup>2) = c"
proof -
  define d where "d = sqrt (a\<^sup>2 + b\<^sup>2)"
  have d: "0 < d" using assms(1) by (simp add: d_def)
  have d2: "a\<^sup>2 + b\<^sup>2 = d\<^sup>2" by (simp add: d_def)
  have "(a / d * c)\<^sup>2 + (b / d * c)\<^sup>2 = (a\<^sup>2 + b\<^sup>2) * (c\<^sup>2 / d\<^sup>2)"
    by (simp add: power_mult_distrib power_divide distrib_right add_divide_distrib)
  also have "\<dots> = c\<^sup>2" unfolding d2 using d by simp
  finally show ?thesis using assms(2) by (simp add: d_def [symmetric])
qed

lemma lerp_offset: "b - lerp a b t = (1 - t) * (b - a)"
  by (simp add: lerp_def algebra_simps)

lemma dist_lerp:
  assumes "t \<le> 1"
  shows "dist_xy (lerp x ox t) (lerp y oy t) ox oy = (1 - t) * dist_xy x y ox oy"
proof -
  have "dist_xy (lerp x ox t) (lerp y oy t) ox oy
      = dist_xy (ox + (x - ox) * (1 - t)) (oy + (y - oy) * (1 - t)) ox oy"
    by (simp add: lerp_def algebra_simps)
  also have "\<dots> = \<bar>1 - t\<bar> * sqrt ((x - ox)\<^sup>2 + (y - oy)\<^sup>2)"
    by (rule dist_xy_offset)
  finally show ?thesis using assms by (simp add: dist_xy_eq)
qed

lemma dist_xy_moved:
  "dist_xy x y (ox + vx) (oy + vy) \<le> dist_xy x y ox oy + sqrt (vx\<^sup>2 + vy\<^sup>2)"
proof -
  have "sqrt (((x - ox) + (- vx))\<^sup>2 + ((y - oy) + (- vy))\<^sup>2)
      \<le> sqrt ((x - ox)\<^sup>2 + (y - oy)\<^sup>2) + sqrt ((- vx)\<^sup>2 + (- vy)\<^sup>2)"
    by (rule real_sqrt_sum_squares_triangle_ineq)
  then show ?thesis by (simp add: dist_xy_eq diff_diff_eq)
qed

section \<open>The target of a node and of a particle\<close>

lemma target_inactive: "\<not> mouse_active m \<Longrightarrow> target m n = (n_ox n, n_oy n)"
  by (simp add: target_def)

lemma push_zero:
  "\<not> (sqrt ((p_baseX p - pt_x m)\<^sup>2 + (p_baseY p - pt_y m)\<^sup>2) < 150
      \<and> 0 < sqrt ((p_baseX p - pt_x m)\<^sup>2 + (p_baseY p - pt_y m)\<^sup>2)) \<Longrightarrow> push m p = (0, 0)"
  unfolding push_def Let_def power2_eq_square by (simp only: if_False)

lemma far_from_sentinel:
  assumes "- 20 \<le> a"
  shows "9979 \<le> dist_xy a b (- 9999) (- 9999)"
proof -
  have "\<bar>a - (- 9999)\<bar> \<le> dist_xy a b (- 9999) (- 9999)" by (rule dist_xy_ge_x)
  with assms show ?thesis by simp
qed

lemma repel_target_offscreen:
  assumes "- 20 \<le> p_baseX p"
  shows "repel_target offscreen p = Some (p_baseX p, p_baseY p)"
proof -
  have "9979 \<le> dist_xy (p_baseX p) (p_baseY p) (- 9999) (- 9999)"
    using assms by (rule far_from_sentinel)
  then have "\<not> sqrt ((p_baseX p - pt_x offscreen)\<^sup>2 + (p_baseY p - pt_y offscreen)\<^sup>2) < 150"
    by (simp add: dist_xy_eq offscreen_def)
  then have "push offscreen p = (0, 0)" by (simp add: push_zero)
  then show ?thesis by (simp add: repel_target_eq)
qed

lemma animate_particle_offscreen:
  "\<exists>p' f. animate_particle W H offscreen p = Some (p', f)
     \<and> p_x p' = lerp (p_x p) (p_baseX p') LERP_SPEED
     \<and> p_y p' = lerp (p_y p) (p_baseY p') LERP_SPEED
     \<and> p_baseX p' = p_baseX (drift_wrap_rep W H p)
     \<and> p_baseY p' = p_baseY (drift_wrap_rep W H p)"
proof -
  have "- 20 \<le> p_baseX (drift_wrap_rep W H p)"
    using drift_wrap_rep_in_range [of W H p] by (simp add: base_in_range_def)
  then have "repel_target offscreen (drift_wrap_rep W H p)
      = Some (p_baseX (drift_wrap_rep W H p), p_baseY (drift_wrap_rep W H p))"
    by (rule repel_target_offscreen)
  then show ?thesis
    by (simp add: animate_particle_def Let_def drift_wrap_rep_rest)
qed

lemma strength_bounds:
  assumes "0 < d" "d < MOUSE_RADIUS"
  shows "0 < (1 - d / MOUSE_RADIUS) * MOUSE_ATTRACT * 12"
    "(1 - d / MOUSE_RADIUS) * MOUSE_ATTRACT * 12 < 0.144"
  using assms by (simp_all add: MOUSE_RADIUS_def MOUSE_ATTRACT_def)

lemma displacement_eq:
  assumes "mouse_active m"
  shows "displacement m n = attract_displacement (dist_xy (n_ox n) (n_oy n) (mouse_x m) (mouse_y m))"
proof -
  define d where "d = dist_xy (n_ox n) (n_oy n) (mouse_x m) (mouse_y m)"
  show ?thesis
  proof (cases "d < MOUSE_RADIUS \<and> 0 < d")
    case True
    have dd: "d = sqrt ((mouse_x m - n_ox n)\<^sup>2 + (mouse_y m - n_oy n)\<^sup>2)"
      by (simp add: d_def dist_xy_eq power2_commute)
    have f: "0 < attract_strength d"
      using True strength_bounds(1) [of d] by (simp add: attract_strength_def)
    have "target m n = (n_ox n + (mouse_x m - n_ox n) * attract_strength d,
        n_oy n + (mouse_y m - n_oy n) * attract_strength d)"
      using assms True
      by (simp add: target_def d_def [symmetric] Let_def attract_strength_def mult.assoc)
    then have "displacement m n = attract_strength d * d"
      using f by (simp add: displacement_def dist_xy_offset dd)
    with True show ?thesis
      by (simp add: attract_displacement_def d_def [symmetric])
  next
    case False
    then have "target m n = (n_ox n, n_oy n)"
      using assms by (auto simp add: target_def d_def [symmetric] Let_def)
    then have "displacement m n = 0" by (simp add: displacement_def dist_xy_eq)
    with False show ?thesis
      by (auto simp add: attract_displacement_def d_def [symmetric])
  qed
qed

lemma repel_displacement_eq:
  "\<exists>tx ty. repel_target m p = Some (tx, ty)
     \<and> dist_xy tx ty (p_baseX p) (p_baseY p)
         = repel_magnitude (dist_xy (p_baseX p) (p_baseY p) (pt_x m) (pt_y m))"
proof -
  define a where "a = p_baseX p - pt_x m"
  define b where "b = p_baseY p - pt_y m"
  define d where "d = sqrt (a\<^sup>2 + b\<^sup>2)"
  have dd: "dist_xy (p_baseX p) (p_baseY p) (pt_x m) (pt_y m) = d"
    by (simp add: dist_xy_eq d_def a_def b_def)
  have pu: "push m p =
      (if d < 150 \<and> d > 0
       then (a / d * ((1 - d / 150) * 8) * 150 * 0.1, b / d * ((1 - d / 150) * 8) * 150 * 0.1)
       else (0, 0))"
    unfolding push_def Let_def d_def a_def b_def power2_eq_square by (rule refl)
  show ?thesis
  proof (cases "d < 150 \<and> 0 < d")
    case True
    define c where "c = (1 - d / 150) * 8 * 150 * 0.1"
    have c: "0 \<le> c" using True by (simp add: c_def)
    have "push m p = (a / d * c, b / d * c)"
      using True by (simp add: pu c_def field_simps)
    moreover have "sqrt ((a / d * c)\<^sup>2 + (b / d * c)\<^sup>2) = c"
      unfolding d_def using True c by (intro sqrt_unit_scaled) (simp_all add: d_def)
    ultimately have "dist_xy (p_baseX p + fst (push m p)) (p_baseY p + snd (push m p))
        (p_baseX p) (p_baseY p) = c"
      by (simp add: dist_xy_eq)
    moreover have "repel_magnitude d = c"
      using True by (simp add: repel_magnitude_def MOUSE_RADIUS_rep_def REPULSION_STRENGTH_def c_def)
    ultimately show ?thesis unfolding dd by (simp add: repel_target_eq)
  next
    case False
    then have "push m p = (0, 0)"
      by (auto simp add: pu)
    moreover have "repel_magnitude d = 0"
      using False by (auto simp add: repel_magnitude_def MOUSE_RADIUS_rep_def)
    ultimately show ?thesis unfolding dd by (simp add: repel_target_eq dist_xy_eq)
  qed
qed

lemma attract_strength_decreasing: "d1 < d2 \<Longrightarrow> attract_strength d2 < attract_strength d1"
  by (simp add: attract_strength_def MOUSE_RADIUS_def MOUSE_ATTRACT_def)

lemma repel_magnitude_decreasing:
  assumes "0 < d1" "d1 < d2" "d2 < MOUSE_RADIUS_rep"
  shows "repel_magnitude d2 < repel_magnitude d1"
  using assms by (simp add: repel_magnitude_def MOUSE_RADIUS_rep_def REPULSION_STRENGTH_def)

lemma repel_magnitude_bounds:
  assumes "0 < d" "d < MOUSE_RADIUS_rep"
  shows "0 < repel_magnitude d" "repel_magnitude d < 120"
  using assms by (simp_all add: repel_magnitude_def MOUSE_RADIUS_rep_def REPULSION_STRENGTH_def)

lemma attract_displacement_closed:
  assumes "0 < d" "d < MOUSE_RADIUS"
  shows "attract_displacement d = 1008 / 100 - (d - 140)\<^sup>2 * (144 / 280000)"
  using assms
  by (simp add: attract_displacement_def attract_strength_def MOUSE_RADIUS_def MOUSE_ATTRACT_def
      power2_eq_square algebra_simps)

lemma attract_displacement_bounds:
  assumes "0 < d" "d < MOUSE_RADIUS"
  shows "0 < attract_displacement d" "attract_displacement d \<le> 10.08"
proof -
  show "0 < attract_displacement d"
    using assms strength_bounds(1) [OF assms]
    by (simp add: attract_displacement_def attract_strength_def)
  have "0 \<le> (d - 140)\<^sup>2 * (144 / 280000)" by simp
  then show "attract_displacement d \<le> 10.08"
    unfolding attract_displacement_closed [OF assms] by simp
qed

lemma attract_displacement_rising:
  assumes "0 < d1" "d1 < d2" "d2 \<le> 140"
  shows "attract_displacement d1 < attract_displacement d2"
proof -
  have r: "d1 < MOUSE_RADIUS" "0 < d2" "d2 < MOUSE_RADIUS"
    using assms by (simp_all add: MOUSE_RADIUS_def)
  have "0 < (d2 - d1) * (280 - d1 - d2)"
    using assms by (intro mult_pos_pos) simp_all
  then have "(d2 - 140)\<^sup>2 < (d1 - 140)\<^sup>2"
    by (simp add: power2_eq_square algebra_simps)
  then show ?thesis
    unfolding attract_displacement_closed [OF assms(1) r(1)]
      attract_displacement_closed [OF r(2,3)] by simp
qed

lemma attract_displacement_falling:
  assumes "140 \<le> d1" "d1 < d2" "d2 < MOUSE_RADIUS"
  shows "attract_displacement d2 < attract_displacement d1"
proof -
  have r: "0 < d1" "d1 < MOUSE_RADIUS" "0 < d2"
    using assms by simp_all
  have "0 < (d2 - d1) * (d1 + d2 - 280)"
    using assms by (intro mult_pos_pos) simp_all
  then have "(d1 - 140)\<^sup>2 < (d2 - 140)\<^sup>2"
    by (simp add: power2_eq_square algebra_simps)
  then show ?thesis
    unfolding attract_displacement_closed [OF r(1,2)]
      attract_displacement_closed [OF r(3) assms(3)] by simp
qed

lemma update_node_inactive_gap:
  assumes "\<not> mouse_active m"
  shows "render_gap (update_node W H m n)
    = 0.93 * dist_xy (n_x n) (n_y n) (n_ox (update_node W H m n)) (n_oy (update_node W H m n))"
proof -
  have "render_gap (update_node W H m n)
      = dist_xy (lerp (n_x n) (n_ox (drift_wrap W H n)) 0.07)
          (lerp (n_y n) (n_oy (drift_wrap W H n)) 0.07)
          (n_ox (drift_wrap W H n)) (n_oy (drift_wrap W H n))"
    using assms by (simp add: render_gap_def update_node_sel target_inactive LERP_RETURN_def)
  also have "\<dots> = (1 - 0.07) * dist_xy (n_x n) (n_y n)
      (n_ox (drift_wrap W H n)) (n_oy (drift_wrap W H n))"
    by (rule dist_lerp) simp
  finally show ?thesis by (simp add: update_node_sel)
qed

lemma animate_particle_offscreen_gap:
  "\<exists>p' f. animate_particle W H offscreen p = Some (p', f)
     \<and> p_baseX p' - p_x p' = 0.96 * (p_baseX p' - p_x p)
     \<and> p_baseY p' - p_y p' = 0.96 * (p_baseY p' - p_y p)
     \<and> render_gap_rep p' = 0.96 * dist_xy (p_x p) (p_y p) (p_baseX p') (p_baseY p')
     \<and> p_baseX p' = p_baseX (drift_wrap_rep W H p)
     \<and> p_baseY p' = p_baseY (drift_wrap_rep W H p)"
proof -
  obtain p' f where 1: "animate_particle W H offscreen p = Some (p', f)"
    and x: "p_x p' = lerp (p_x p) (p_baseX p') LERP_SPEED"
    and y: "p_y p' = lerp (p_y p) (p_baseY p') LERP_SPEED"
    and b: "p_baseX p' = p_baseX (drift_wrap_rep W H p)"
      "p_baseY p' = p_baseY (drift_wrap_rep W H p)"
    using animate_particle_offscreen [of W H p] by blast
  have 2: "p_baseX p' - p_x p' = 0.96 * (p_baseX p' - p_x p)"
    "p_baseY p' - p_y p' = 0.96 * (p_baseY p' - p_y p)"
    by (simp_all add: x y lerp_offset LERP_SPEED_def)
  have "render_gap_rep p' = (1 - LERP_SPEED) * dist_xy (p_x p) (p_y p) (p_baseX p') (p_baseY p')"
    unfolding render_gap_rep_def x y by (rule dist_lerp) (simp add: LERP_SPEED_def)
  then have 3: "render_gap_rep p' = 0.96 * dist_xy (p_x p) (p_y p) (p_baseX p') (p_baseY p')"
    by (simp add: LERP_SPEED_def)
  from 1 2 3 b show ?thesis by blast
qed

section \<open>The edges of the network\<close>

lemma node_edge_far:
  "CONNECT_DIST \<le> dist_xy (n_x a) (n_y a) (n_x b) (n_y b) \<Longrightarrow> node_edge a b = []"
  by (simp add: node_edge_def Let_def)

lemma node_edge_near:
  "dist_xy (n_x a) (n_y a) (n_x b) (n_y b) < CONNECT_DIST \<Longrightarrow>
   node_edge a b = [Stroke (n_x a) (n_y a) (n_x b) (n_y b) LINE_BASE_COLOR
     ((1 - dist_xy (n_x a) (n_y a) (n_x b) (n_y b) / CONNECT_DIST) * 0.35) 0.6]"
  by (simp add: node_edge_def Let_def)

lemma opacity_bounds:
  assumes "0 \<le> d" "d < CONNECT_DIST"
  shows "0 < (1 - d / CONNECT_DIST) * 0.35" "(1 - d / CONNECT_DIST) * 0.35 \<le> 0.35"
    "0.35 - (1 - d / CONNECT_DIST) * 0.35 = d * (0.35 / CONNECT_DIST)"
  using assms by (simp_all add: CONNECT_DIST_def algebra_simps)

lemma draw_edges_pairs:
  "i < j \<Longrightarrow> j < length ns \<Longrightarrow> set (node_edge (ns ! i) (ns ! j)) \<subseteq> set (draw_edges m ns)"
proof (induction ns arbitrary: i j)
  case Nil
  then show ?case by simp
next
  case (Cons a rest)
  show ?case
  proof (cases i)
    case 0
    with Cons.prems obtain j' where j: "j = Suc j'" "j' < length rest"
      by (cases j) auto
    then have "rest ! j' \<in> set rest" by simp
    with 0 j show ?thesis by auto
  next
    case (Suc i')
    with Cons.prems obtain j' where j: "j = Suc j'" "i' < j'" "j' < length rest"
      by (cases j) auto
    from Cons.IH [OF j(2,3)] Suc j show ?thesis by auto
  qed
qed

lemma draw_edges_only_pairs:
  "op \<in> set (draw_edges m ns) \<Longrightarrow>
     (\<exists>i j. i < j \<and> j < length ns \<and> op \<in> set (node_edge (ns ! i) (ns ! j)))
   \<or> (\<exists>i. i < length ns \<and> op \<in> set (mouse_edge m (ns ! i)))"
proof (induction ns)
  case Nil
  then show ?case by simp
next
  case (Cons a rest)
  from Cons.prems consider
      (inner) b where "b \<in> set rest" "op \<in> set (node_edge a b)"
    | (cursor) "op \<in> set (mouse_edge m a)"
    | (later) "op \<in> set (draw_edges m rest)"
    by auto
  then show ?case
  proof cases
    case inner
    then obtain j where "j < length rest" "rest ! j = b"
      by (auto simp add: in_set_conv_nth)
    with inner have "0 < Suc j \<and> Suc j < length (a # rest)
        \<and> op \<in> set (node_edge ((a # rest) ! 0) ((a # rest) ! Suc j))"
      by simp
    then show ?thesis by blast
  next
    case cursor
    then have "0 < length (a # rest) \<and> op \<in> set (mouse_edge m ((a # rest) ! 0))" by simp
    then show ?thesis by blast
  next
    case later
    from Cons.IH [OF later] show ?thesis
    proof
      assume "\<exists>i j. i < j \<and> j < length rest \<and> op \<in> set (node_edge (rest ! i) (rest ! j))"
      then obtain i j where "i < j" "j < length rest" "op \<in> set (node_edge (rest ! i) (rest ! j))"
        by blast
      then have "Suc i < Suc j \<and> Suc j < length (a # rest)
          \<and> op \<in> set (node_edge ((a # rest) ! Suc i) ((a # rest) ! Suc j))"
        by simp
      then show ?thesis by blast
    next
      assume "\<exists>i. i < length rest \<and> op \<in> set (mouse_edge m (rest ! i))"
      then obtain i where "i < length rest" "op \<in> set (mouse_edge m (rest ! i))" by blast
      then have "Suc i < length (a # rest) \<and> op \<in> set (mouse_edge m ((a # rest) ! Suc i))"
        by simp
      then show ?thesis by blast
    qed
  qed
qed

lemma opacity_limit: "((\<lambda>d. (1 - d / CONNECT_DIST) * 0.35) \<longlongrightarrow> 0.35) (at 0)"
proof -
  have "((\<lambda>d::real. (1 - d / CONNECT_DIST) * 0.35) \<longlongrightarrow> (1 - 0 / CONNECT_DIST) * 0.35) (at 0)"
    by (intro tendsto_intros) (simp add: CONNECT_DIST_def)
  then show ?thesis by simp
qed

section \<open>The smoothed mouse of the grid\<close>

lemma animate_mouse_keeps:
  "g_rawMouse (animate_mouse g) = g_rawMouse g" "g_mouseActive (animate_mouse g) = g_mouseActive g"
  by (simp_all add: animate_mouse_def Let_def)

lemma animate_mouse_active:
  "g_mouseActive g \<Longrightarrow>
   g_mouse (animate_mouse g)
     = \<lparr> pt_x = lerp (pt_x (g_mouse g)) (pt_x (g_rawMouse g)) 0.12,
         pt_y = lerp (pt_y (g_mouse g)) (pt_y (g_rawMouse g)) 0.12 \<rparr>"
  by (simp add: animate_mouse_def Let_def)

lemma animate_mouse_inactive:
  assumes "\<not> g_mouseActive g"
  shows "pt_x (g_mouse (animate_mouse g)) - inactive_rest (pt_x (g_rawMouse g))
      = (209 / 250) * (pt_x (g_mouse g) - inactive_rest (pt_x (g_rawMouse g)))"
    "pt_y (g_mouse (animate_mouse g)) - inactive_rest (pt_y (g_rawMouse g))
      = (209 / 250) * (pt_y (g_mouse g) - inactive_rest (pt_y (g_rawMouse g)))"
  using assms by (simp_all add: animate_mouse_def Let_def lerp_def inactive_rest_def field_simps)

lemma funpow_keeps:
  "g_rawMouse ((animate_mouse ^^ k) g) = g_rawMouse g"
  "g_mouseActive ((animate_mouse ^^ k) g) = g_mouseActive g"
  by (induction k) (simp_all add: animate_mouse_keeps)

lemma funpow_inactive:
  assumes "\<not> g_mouseActive g"
  shows "pt_x (g_mouse ((animate_mouse ^^ k) g)) - inactive_rest (pt_x (g_rawMouse g))
      = (209 / 250) ^ k * (pt_x (g_mouse g) - inactive_rest (pt_x (g_rawMouse g)))"
    "pt_y (g_mouse ((animate_mouse ^^ k) g)) - inactive_rest (pt_y (g_rawMouse g))
      = (209 / 250) ^ k * (pt_y (g_mouse g) - inactive_rest (pt_y (g_rawMouse g)))"
proof (induction k)
  case 0
  show "pt_x (g_mouse ((animate_mouse ^^ 0) g)) - inactive_rest (pt_x (g_rawMouse g))
      = (209 / 250) ^ 0 * (pt_x (g_mouse g) - inactive_rest (pt_x (g_rawMouse g)))"
    "pt_y (g_mouse ((animate_mouse ^^ 0) g)) - inactive_rest (pt_y (g_rawMouse g))
      = (209 / 250) ^ 0 * (pt_y (g_mouse g) - inactive_rest (pt_y (g_rawMouse g)))"
    by simp_all
next
  case (Suc k)
  have i: "\<not> g_mouseActive ((animate_mouse ^^ k) g)"
    using assms by (simp add: funpow_keeps)
  show "pt_x (g_mouse ((animate_mouse ^^ Suc k) g)) - inactive_rest (pt_x (g_rawMouse g))
      = (209 / 250) ^ Suc k * (pt_x (g_mouse g) - inactive_rest (pt_x (g_rawMouse g)))"
    using animate_mouse_inactive(1) [OF i] Suc(1) by (simp add: funpow_keeps)
  show "pt_y (g_mouse ((animate_mouse ^^ Suc k) g)) - inactive_rest (pt_y (g_rawMouse g))
      = (209 / 250) ^ Suc k * (pt_y (g_mouse g) - inactive_rest (pt_y (g_rawMouse g)))"
    using animate_mouse_inactive(2) [OF i] Suc(2) by (simp add: funpow_keeps)
qed

lemma grid_left_at_sel:
  "\<not> g_mouseActive (grid_left_at rx ry)"
  "g_rawMouse (grid_left_at rx ry) = \<lparr> pt_x = rx, pt_y = ry \<rparr>"
  "g_mouse (grid_left_at rx ry) = \<lparr> pt_x = rx, pt_y = ry \<rparr>"
  by (simp_all add: grid_left_at_def grid_onMouseLeave_def)

lemma funpow_active:
  assumes "g_mouseActive g"
  shows "pt_x (g_mouse ((animate_mouse ^^ j) g)) - pt_x (g_rawMouse g)
      = (22 / 25) ^ j * (pt_x (g_mouse g) - pt_x (g_rawMouse g))"
    "pt_y (g_mouse ((animate_mouse ^^ j) g)) - pt_y (g_rawMouse g)
      = (22 / 25) ^ j * (pt_y (g_mouse g) - pt_y (g_rawMouse g))"
proof (induction j)
  case 0
  show "pt_x (g_mouse ((animate_mouse ^^ 0) g)) - pt_x (g_rawMouse g)
      = (22 / 25) ^ 0 * (pt_x (g_mouse g) - pt_x (g_rawMouse g))"
    "pt_y (g_mouse ((animate_mouse ^^ 0) g)) - pt_y (g_rawMouse g)
      = (22 / 25) ^ 0 * (pt_y (g_mouse g) - pt_y (g_rawMouse g))"
    by simp_all
next
  case (Suc j)
  have a: "g_mouseActive ((animate_mouse ^^ j) g)"
    using assms by (simp add: funpow_keeps)
  have s: "pt_x (g_mouse (animate_mouse h)) - pt_x (g_rawMouse h)
      = (22 / 25) * (pt_x (g_mouse h) - pt_x (g_rawMouse h))"
    "pt_y (g_mouse (animate_mouse h)) - pt_y (g_rawMouse h)
      = (22 / 25) * (pt_y (g_mouse h) - pt_y (g_rawMouse h))" if "g_mouseActive h" for h
    using that by (simp_all add: animate_mouse_active lerp_def field_simps)
  show "pt_x (g_mouse ((animate_mouse ^^ Suc j) g)) - pt_x (g_rawMouse g)
      = (22 / 25) ^ Suc j * (pt_x (g_mouse g) - pt_x (g_rawMouse g))"
    using s(1) [OF a] Suc(1) by (simp add: funpow_keeps)
  show "pt_y (g_mouse ((animate_mouse ^^ Suc j) g)) - pt_y (g_rawMouse g)
      = (22 / 25) ^ Suc j * (pt_y (g_mouse g) - pt_y (g_rawMouse g))"
    using s(2) [OF a] Suc(2) by (simp add: funpow_keeps)
qed

lemma grid_left_after_sel:
  "\<not> g_mouseActive (grid_left_after j rx ry)"
  "g_rawMouse (grid_left_after j rx ry) = \<lparr> pt_x = rx, pt_y = ry \<rparr>"
  "pt_x (g_mouse (grid_left_after j rx ry)) = rx + (22 / 25) ^ j * (- 9999 - rx)"
  "pt_y (g_mouse (grid_left_after j rx ry)) = ry + (22 / 25) ^ j * (- 9999 - ry)"
proof -
  let ?g = "grid_onMouseMove rx ry grid_init"
  have a: "g_mouseActive ?g" and r: "g_rawMouse ?g = \<lparr> pt_x = rx, pt_y = ry \<rparr>"
    and m: "g_mouse ?g = offscreen"
    by (simp_all add: grid_onMouseMove_def grid_init_def)
  show "\<not> g_mouseActive (grid_left_after j rx ry)"
    by (simp add: grid_left_after_def grid_onMouseLeave_def)
  show "g_rawMouse (grid_left_after j rx ry) = \<lparr> pt_x = rx, pt_y = ry \<rparr>"
    by (simp add: grid_left_after_def grid_onMouseLeave_def funpow_keeps r)
  show "pt_x (g_mouse (grid_left_after j rx ry)) = rx + (22 / 25) ^ j * (- 9999 - rx)"
    using funpow_active(1) [OF a, of j]
    by (simp add: grid_left_after_def grid_onMouseLeave_def r m offscreen_def)
  show "pt_y (g_mouse (grid_left_after j rx ry)) = ry + (22 / 25) ^ j * (- 9999 - ry)"
    using funpow_active(2) [OF a, of j]
    by (simp add: grid_left_after_def grid_onMouseLeave_def r m offscreen_def)
qed

lemma inactive_limit:
  assumes "\<not> g_mouseActive g"
  shows "(\<lambda>k. pt_x (g_mouse ((animate_mouse ^^ k) g))) \<longlonglongrightarrow> inactive_rest (pt_x (g_rawMouse g))"
    "(\<lambda>k. pt_y (g_mouse ((animate_mouse ^^ k) g))) \<longlonglongrightarrow> inactive_rest (pt_y (g_rawMouse g))"
proof -
  have p0: "(\<lambda>k. (209 / 250 :: real) ^ k) \<longlonglongrightarrow> 0"
    by (rule LIMSEQ_realpow_zero) simp_all
  have x: "pt_x (g_mouse ((animate_mouse ^^ k) g)) = inactive_rest (pt_x (g_rawMouse g))
      + (209 / 250) ^ k * (pt_x (g_mouse g) - inactive_rest (pt_x (g_rawMouse g)))" for k
    using funpow_inactive(1) [OF assms, of k] by simp
  have y: "pt_y (g_mouse ((animate_mouse ^^ k) g)) = inactive_rest (pt_y (g_rawMouse g))
      + (209 / 250) ^ k * (pt_y (g_mouse g) - inactive_rest (pt_y (g_rawMouse g)))" for k
    using funpow_inactive(2) [OF assms, of k] by simp
  have "(\<lambda>k. inactive_rest (pt_x (g_rawMouse g))
      + (209 / 250) ^ k * (pt_x (g_mouse g) - inactive_rest (pt_x (g_rawMouse g))))
      \<longlonglongrightarrow> inactive_rest (pt_x (g_rawMouse g))
        + 0 * (pt_x (g_mouse g) - inactive_rest (pt_x (g_rawMouse g)))"
    by (intro tendsto_intros p0)
  then show "(\<lambda>k. pt_x (g_mouse ((animate_mouse ^^ k) g)))
      \<longlonglongrightarrow> inactive_rest (pt_x (g_rawMouse g))"
    by (simp add: x)
  have "(\<lambda>k. inactive_rest (pt_y (g_rawMouse g))
      + (209 / 250) ^ k * (pt_y (g_mouse g) - inactive_rest (pt_y (g_rawMouse g))))
      \<longlonglongrightarrow> inactive_rest (pt_y (g_rawMouse g))
        + 0 * (pt_y (g_mouse g) - inactive_rest (pt_y (g_rawMouse g)))"
    by (intro tendsto_intros p0)
  then show "(\<lambda>k. pt_y (g_mouse ((animate_mouse ^^ k) g)))
      \<longlonglongrightarrow> inactive_rest (pt_y (g_rawMouse g))"
    by (simp add: y)
qed

lemma left_frame_above_sentinel:
  "- 9999 < pt_x (g_mouse ((animate_mouse ^^ Suc k) (grid_left_after j 500 300)))"
proof -
  define c where "c = (209 / 250 :: real) ^ Suc k"
  define b where "b = (22 / 25 :: real) ^ j"
  have c: "0 < c" "c < 1"
    unfolding c_def by (simp, intro power_Suc_less_one) simp_all
  have b: "0 < b" "b \<le> 1"
    unfolding b_def by (simp, intro power_le_one) simp_all
  have x0: "pt_x (g_mouse (grid_left_after j 500 300)) = 500 - b * 10499"
    by (simp add: grid_left_after_sel b_def)
  have rest: "inactive_rest 500 = - 221475 / 82" by (simp add: inactive_rest_def)
  have "pt_x (g_mouse ((animate_mouse ^^ Suc k) (grid_left_after j 500 300)))
      = - 221475 / 82 + c * (500 - b * 10499 + 221475 / 82)"
    using funpow_inactive(1) [of "grid_left_after j 500 300" "Suc k", OF grid_left_after_sel(1)]
    unfolding c_def [symmetric] x0 by (simp add: grid_left_after_sel rest)
  also have "\<dots> = - 9999 + (1 - c) * (9999 - 221475 / 82) + c * (10499 * (1 - b))"
    by (simp add: field_simps)
  finally have e: "pt_x (g_mouse ((animate_mouse ^^ Suc k) (grid_left_after j 500 300)))
      = - 9999 + (1 - c) * (9999 - 221475 / 82) + c * (10499 * (1 - b))" .
  have "0 < (1 - c) * (9999 - 221475 / 82)"
    using c by (intro mult_pos_pos) simp_all
  moreover have "0 \<le> c * (10499 * (1 - b))"
    using c b by (intro mult_nonneg_nonneg) simp_all
  ultimately show ?thesis unfolding e by linarith
qed

section \<open>The claims\<close>

subsection \<open>C1: the influence of the pointer as a function of the distance\<close>

text \<open>
  C1 as it is stated fails on both models. With the cursor at the origin, the target of
  a node whose home is at distance 70 is displaced by 7.56 and that of a node at distance
  140 by 10.08: the displacement of the attraction model grows with the distance up to
  140. At distance 0 the test \<open>d > 0\<close> fails in both models and the target is the home
  position: the influence there is zero, not maximal, while a particle of the repulsion
  field at distance 75 is pushed by 60.
\<close>

theorem C1_influence_counterexample:
  "displacement cursor_at_origin (node_at 70 0 0 0) < displacement cursor_at_origin (node_at 140 0 0 0)
   \<and> displacement cursor_at_origin (node_at 0 0 0 0) = 0
   \<and> displacement cursor_at_origin (node_at 140 0 0 0) = 10.08
   \<and> repel_target \<lparr> pt_x = 0, pt_y = 0 \<rparr> (particle_at 0 0 0 0) = Some (0, 0)
   \<and> repel_target \<lparr> pt_x = 0, pt_y = 0 \<rparr> (particle_at 75 0 0 0) = Some (135, 0)"
proof -
  have a: "mouse_active cursor_at_origin" by (simp add: cursor_at_origin_def)
  have 1: "displacement cursor_at_origin (node_at 70 0 0 0) = 7.56"
    unfolding displacement_eq [OF a] by (simp add: node_at_def cursor_at_origin_def dist_xy_axis
        attract_displacement_def attract_strength_def MOUSE_RADIUS_def MOUSE_ATTRACT_def)
  have 2: "displacement cursor_at_origin (node_at 140 0 0 0) = 10.08"
    unfolding displacement_eq [OF a] by (simp add: node_at_def cursor_at_origin_def dist_xy_axis
        attract_displacement_def attract_strength_def MOUSE_RADIUS_def MOUSE_ATTRACT_def)
  have 3: "displacement cursor_at_origin (node_at 0 0 0 0) = 0"
    unfolding displacement_eq [OF a] by (simp add: node_at_def cursor_at_origin_def dist_xy_axis
        attract_displacement_def)
  have 4: "repel_target \<lparr> pt_x = 0, pt_y = 0 \<rparr> (particle_at 0 0 0 0) = Some (0, 0)"
    by (simp add: repel_target_eq push_def particle_at_def)
  have 5: "repel_target \<lparr> pt_x = 0, pt_y = 0 \<rparr> (particle_at 75 0 0 0) = Some (135, 0)"
    by (simp add: repel_target_eq push_def particle_at_def)
  from 1 2 3 4 5 show ?thesis by simp
qed

text \<open>
  C1, amended. In both models the distance between the target and the home position is
  a function of the distance \<open>d\<close> between the pointer and the home position alone
  (\<open>attract_displacement\<close> for an active cursor of the network, \<open>repel_magnitude\<close>
  for the repulsion field), and it is zero at \<open>d = 0\<close> and for every \<open>d\<close> from the
  influence radius on. In the repulsion model, for \<open>0 < d < 150\<close>, it is
  \<open>(1 - d / 150) * 8 * 150 * 0.1\<close>, positive, below 120 and strictly decreasing in
  \<open>d\<close>. In the attraction model, for \<open>0 < d < 280\<close>, it is
  \<open>d * (1 - d / 280) * 0.012 * 12\<close>, positive and at most 10.08; it is strictly
  increasing up to \<open>d = 140\<close> and strictly decreasing from there on. The factor
  \<open>(1 - d / 280) * 0.012 * 12\<close> alone is strictly decreasing in \<open>d\<close>, is 0.144 at
  \<open>d = 0\<close> and zero at \<open>d = 280\<close>.
\<close>

theorem C1_influence_of_distance:
  "(mouse_active m \<longrightarrow>
      displacement m n = attract_displacement (dist_xy (n_ox n) (n_oy n) (mouse_x m) (mouse_y m)))
   \<and> (\<exists>tx ty. repel_target pm p = Some (tx, ty)
        \<and> dist_xy tx ty (p_baseX p) (p_baseY p)
            = repel_magnitude (dist_xy (p_baseX p) (p_baseY p) (pt_x pm) (pt_y pm)))
   \<and> attract_displacement 0 = 0 \<and> repel_magnitude 0 = 0
   \<and> (MOUSE_RADIUS \<le> d \<longrightarrow> attract_displacement d = 0)
   \<and> (MOUSE_RADIUS_rep \<le> d \<longrightarrow> repel_magnitude d = 0)
   \<and> (0 < d \<and> d < MOUSE_RADIUS_rep \<longrightarrow>
        repel_magnitude d = (1 - d / MOUSE_RADIUS_rep) * REPULSION_STRENGTH * MOUSE_RADIUS_rep * 0.1
        \<and> 0 < repel_magnitude d \<and> repel_magnitude d < 120)
   \<and> (0 < d1 \<and> d1 < d2 \<and> d2 < MOUSE_RADIUS_rep \<longrightarrow> repel_magnitude d2 < repel_magnitude d1)
   \<and> (0 < d \<and> d < MOUSE_RADIUS \<longrightarrow>
        attract_displacement d = d * ((1 - d / MOUSE_RADIUS) * MOUSE_ATTRACT * 12)
        \<and> 0 < attract_displacement d \<and> attract_displacement d \<le> 10.08
        \<and> 0 < attract_strength d \<and> attract_strength d < 0.144)
   \<and> attract_strength 0 = 0.144 \<and> attract_strength MOUSE_RADIUS = 0
   \<and> (d1 < d2 \<longrightarrow> attract_strength d2 < attract_strength d1)
   \<and> (0 < d1 \<and> d1 < d2 \<and> d2 \<le> 140 \<longrightarrow> attract_displacement d1 < attract_displacement d2)
   \<and> (140 \<le> d1 \<and> d1 < d2 \<and> d2 < MOUSE_RADIUS \<longrightarrow>
        attract_displacement d2 < attract_displacement d1)"
proof -
  have 1: "attract_displacement 0 = 0 \<and> repel_magnitude 0 = 0"
    by (simp add: attract_displacement_def repel_magnitude_def)
  have 2: "MOUSE_RADIUS \<le> d \<longrightarrow> attract_displacement d = 0"
    by (simp add: attract_displacement_def)
  have 3: "MOUSE_RADIUS_rep \<le> d \<longrightarrow> repel_magnitude d = 0"
    by (simp add: repel_magnitude_def)
  have 4: "0 < d \<and> d < MOUSE_RADIUS_rep \<longrightarrow>
        repel_magnitude d = (1 - d / MOUSE_RADIUS_rep) * REPULSION_STRENGTH * MOUSE_RADIUS_rep * 0.1
        \<and> 0 < repel_magnitude d \<and> repel_magnitude d < 120"
    using repel_magnitude_bounds [of d] by (simp add: repel_magnitude_def)
  have 5: "0 < d \<and> d < MOUSE_RADIUS \<longrightarrow>
        attract_displacement d = d * ((1 - d / MOUSE_RADIUS) * MOUSE_ATTRACT * 12)
        \<and> 0 < attract_displacement d \<and> attract_displacement d \<le> 10.08
        \<and> 0 < attract_strength d \<and> attract_strength d < 0.144"
    using attract_displacement_bounds [of d] strength_bounds [of d]
    by (simp add: attract_displacement_def attract_strength_def)
  have 6: "attract_strength 0 = 0.144 \<and> attract_strength MOUSE_RADIUS = 0"
    by (simp add: attract_strength_def MOUSE_RADIUS_def MOUSE_ATTRACT_def)
  from displacement_eq [of m n] repel_displacement_eq [of pm p] 1 2 3 4 5 6
    repel_magnitude_decreasing [of d1 d2] attract_strength_decreasing [of d1 d2]
    attract_displacement_rising [of d1 d2] attract_displacement_falling [of d1 d2]
  show ?thesis by blast
qed

text \<open>
  The theorem at the cursor at the origin and a node at distance 70, and at the distances
  70, 75, 100, 140, 150, 200 and 280.
\<close>

theorem C1_influence_of_distance_witness:
  "displacement cursor_at_origin (node_at 70 0 0 0)
     = attract_displacement
         (dist_xy (n_ox (node_at 70 0 0 0)) (n_oy (node_at 70 0 0 0))
            (mouse_x cursor_at_origin) (mouse_y cursor_at_origin))
   \<and> attract_displacement 280 = 0 \<and> repel_magnitude 150 = 0
   \<and> repel_magnitude 75 = (1 - 75 / MOUSE_RADIUS_rep) * REPULSION_STRENGTH * MOUSE_RADIUS_rep * 0.1
   \<and> repel_magnitude 100 < repel_magnitude 75
   \<and> attract_displacement 70 = 70 * ((1 - 70 / MOUSE_RADIUS) * MOUSE_ATTRACT * 12)
   \<and> attract_strength 140 < attract_strength 70
   \<and> attract_displacement 70 < attract_displacement 140
   \<and> attract_displacement 200 < attract_displacement 140"
proof -
  have a: "mouse_active cursor_at_origin" by (simp add: cursor_at_origin_def)
  have h1: "MOUSE_RADIUS \<le> 280" "MOUSE_RADIUS_rep \<le> 150"
    by (simp_all add: MOUSE_RADIUS_def MOUSE_RADIUS_rep_def)
  have h2: "(0::real) < 75 \<and> 75 < MOUSE_RADIUS_rep" "(0::real) < 75 \<and> (75::real) < 100 \<and> 100 < MOUSE_RADIUS_rep"
    by (simp_all add: MOUSE_RADIUS_rep_def)
  have h3: "(0::real) < 70 \<and> 70 < MOUSE_RADIUS" "(70::real) < 140"
    "(0::real) < 70 \<and> (70::real) < 140 \<and> (140::real) \<le> 140"
    "(140::real) \<le> 140 \<and> (140::real) < 200 \<and> 200 < MOUSE_RADIUS"
    by (simp_all add: MOUSE_RADIUS_def)
  from C1_influence_of_distance [of cursor_at_origin "node_at 70 0 0 0" _ _ 280] a h1
  have 1: "displacement cursor_at_origin (node_at 70 0 0 0)
     = attract_displacement
         (dist_xy (n_ox (node_at 70 0 0 0)) (n_oy (node_at 70 0 0 0))
            (mouse_x cursor_at_origin) (mouse_y cursor_at_origin))" "attract_displacement 280 = 0"
    by blast+
  from C1_influence_of_distance [of _ _ _ _ 150] h1
  have 2: "repel_magnitude 150 = 0" by blast
  from C1_influence_of_distance [of _ _ _ _ 75 75 100] h2
  have 3: "repel_magnitude 75
      = (1 - 75 / MOUSE_RADIUS_rep) * REPULSION_STRENGTH * MOUSE_RADIUS_rep * 0.1"
    "repel_magnitude 100 < repel_magnitude 75"
    by blast+
  from C1_influence_of_distance [of _ _ _ _ 70 70 140] h3
  have 4: "attract_displacement 70 = 70 * ((1 - 70 / MOUSE_RADIUS) * MOUSE_ATTRACT * 12)"
    "attract_strength 140 < attract_strength 70"
    "attract_displacement 70 < attract_displacement 140"
    by blast+
  from C1_influence_of_distance [of _ _ _ _ _ 140 200] h3
  have 5: "attract_displacement 200 < attract_displacement 140" by blast
  from 1 2 3 4 5 show ?thesis by blast
qed

subsection \<open>C2: seeding a 1920 by 1080 viewport\<close>

text \<open>
  The count of the source at 1920 by 1080 is not 155: the area is 2073600, times 0.00008
  is 165.888, and the floor of that is 165.
\<close>

theorem C2_seed_count_counterexample: "seed_count 1920 1080 \<noteq> 155"
  by (simp add: seed_count_1920_1080)

text \<open>
  C2, amended. When every draw of \<open>Math.random()\<close> is in \<open>[0, 1)\<close>, seeding a 1920 by
  1080 viewport makes exactly 165 nodes; for every viewport the number of nodes is
  \<open>max 40 (floor (area * NODE_DENSITY))\<close>, a resize replaces the collection by the
  seeded one, and every seeded node is drawn at its origin, inside
  \<open>[0, W] \<times> [0, H]\<close>.
\<close>

theorem C2_seed_1920_1080:
  assumes "\<forall>k. 0 \<le> rnd k \<and> rnd k < 1"
  shows "length (seed 1920 1080 rnd) = 165
    \<and> length (seed W H rnd) = nat (max 40 \<lfloor>real (W * H) * NODE_DENSITY\<rfloor>)
    \<and> s_nodes (resize W H rnd s) = seed W H rnd
    \<and> (\<forall>n \<in> set (seed W H rnd).
          n_x n = n_ox n \<and> n_y n = n_oy n
          \<and> 0 \<le> n_x n \<and> n_x n \<le> real W \<and> 0 \<le> n_y n \<and> n_y n \<le> real H)"
proof -
  have 1: "length (seed 1920 1080 rnd) = 165"
    by (simp add: length_seed seed_count_1920_1080)
  have 2: "length (seed W H rnd) = nat (max 40 \<lfloor>real (W * H) * NODE_DENSITY\<rfloor>)"
    by (simp add: length_seed seed_count_def Let_def)
  have 3: "s_nodes (resize W H rnd s) = seed W H rnd"
    by (simp add: resize_def)
  have 4: "\<forall>n \<in> set (seed W H rnd).
          n_x n = n_ox n \<and> n_y n = n_oy n
          \<and> 0 \<le> n_x n \<and> n_x n \<le> real W \<and> 0 \<le> n_y n \<and> n_y n \<le> real H"
    using seed_node_bounds [OF assms] by (auto simp add: seed_def)
  from 1 2 3 4 show ?thesis by blast
qed

text \<open>
  The theorem at the sequence of draws that is constantly one half.
\<close>

theorem C2_seed_1920_1080_witness:
  "length (seed 1920 1080 (\<lambda>k. 1 / 2)) = 165"
proof -
  have h: "\<forall>k::nat. (0::real) \<le> 1 / 2 \<and> (1 / 2 :: real) < 1" by simp
  from C2_seed_1920_1080 [of "\<lambda>k. 1 / 2", OF h] show ?thesis by (rule conjunct1)
qed

subsection \<open>C3: the return to the home position while the pointer is inactive\<close>

text \<open>
  C3 as it is stated fails: the home position drifts in the same frame. A node that
  \<open>seed\<close> has just made is drawn at its home position, at distance 0; after one frame
  with the drift velocity \<open>(0.1, 0)\<close> and an inactive mouse the distance is 0.093.
\<close>

theorem C3_gap_counterexample:
  "render_gap (node_at 0 0 0.1 0) < render_gap (update_node 1920 1080 init_mouse (node_at 0 0 0.1 0))"
proof -
  have "render_gap (node_at 0 0 0.1 0) = 0"
    by (simp add: render_gap_def node_at_def dist_xy_axis)
  moreover have "render_gap (update_node 1920 1080 init_mouse (node_at 0 0 0.1 0)) = 0.093"
    by (simp add: render_gap_def update_node_sel drift_wrap_ox drift_wrap_oy target_inactive
        init_mouse_def node_at_def lerp_def LERP_RETURN_def dist_xy_axis)
  ultimately show ?thesis by simp
qed

text \<open>
  C3, amended. While the pointer is inactive (the flag of the network is false, the
  mouse of the repulsion field is at the off-screen position), a frame sets the rendered
  position to the interpolation between the old rendered position and the home position
  of that frame, after drift and wrap. On each axis the offset from that home position is
  multiplied by 0.93 (network) or 0.96 (repulsion field): it keeps its sign, so there is
  no overshoot and no oscillation, and the distance to that home position is multiplied
  by the same factor. When the drift velocity is zero and the home position is within
  the wrap bounds, the distance between the rendered and the home position is multiplied
  by that factor from frame to frame, so it does not increase. With a drift it may grow,
  but in a frame without a wrap it is at most that factor times the sum of the old
  distance and the length of the drift velocity.
\<close>

theorem C3_inactive_convergence:
  "(\<not> mouse_active m \<longrightarrow>
      (let n' = update_node W H m n in
         n_ox n' - n_x n' = 0.93 * (n_ox n' - n_x n)
       \<and> n_oy n' - n_y n' = 0.93 * (n_oy n' - n_y n)
       \<and> render_gap n' = 0.93 * dist_xy (n_x n) (n_y n) (n_ox n') (n_oy n')
       \<and> render_gap n' \<le> dist_xy (n_x n) (n_y n) (n_ox n') (n_oy n')))
   \<and> (\<not> mouse_active m \<and> n_vx n = 0 \<and> n_vy n = 0 \<and> home_in_range W H n \<longrightarrow>
        render_gap (update_node W H m n) = 0.93 * render_gap n
      \<and> render_gap (update_node W H m n) \<le> render_gap n)
   \<and> (\<not> mouse_active m
        \<and> home_in_range W H (n \<lparr> n_ox := n_ox n + n_vx n, n_oy := n_oy n + n_vy n \<rparr>) \<longrightarrow>
        render_gap (update_node W H m n)
          \<le> 0.93 * (render_gap n + sqrt ((n_vx n)\<^sup>2 + (n_vy n)\<^sup>2)))
   \<and> (\<exists>p' f. animate_particle W H offscreen p = Some (p', f)
        \<and> p_baseX p' - p_x p' = 0.96 * (p_baseX p' - p_x p)
        \<and> p_baseY p' - p_y p' = 0.96 * (p_baseY p' - p_y p)
        \<and> render_gap_rep p' = 0.96 * dist_xy (p_x p) (p_y p) (p_baseX p') (p_baseY p')
        \<and> render_gap_rep p' \<le> dist_xy (p_x p) (p_y p) (p_baseX p') (p_baseY p')
        \<and> (p_vx p = 0 \<and> p_vy p = 0 \<and> base_in_range W H p \<longrightarrow>
             render_gap_rep p' = 0.96 * render_gap_rep p \<and> render_gap_rep p' \<le> render_gap_rep p)
        \<and> (base_in_range W H (p \<lparr> p_baseX := p_baseX p + p_vx p, p_baseY := p_baseY p + p_vy p \<rparr>)
             \<longrightarrow> render_gap_rep p'
                   \<le> 0.96 * (render_gap_rep p + sqrt ((p_vx p)\<^sup>2 + (p_vy p)\<^sup>2))))"
proof -
  have 1: "\<not> mouse_active m \<longrightarrow>
      (let n' = update_node W H m n in
         n_ox n' - n_x n' = 0.93 * (n_ox n' - n_x n)
       \<and> n_oy n' - n_y n' = 0.93 * (n_oy n' - n_y n)
       \<and> render_gap n' = 0.93 * dist_xy (n_x n) (n_y n) (n_ox n') (n_oy n')
       \<and> render_gap n' \<le> dist_xy (n_x n) (n_y n) (n_ox n') (n_oy n'))"
  proof
    assume a: "\<not> mouse_active m"
    have g: "0 \<le> dist_xy (n_x n) (n_y n) (n_ox (update_node W H m n)) (n_oy (update_node W H m n))"
      by (rule dist_xy_nonneg)
    have "n_ox (update_node W H m n) - n_x (update_node W H m n)
        = 0.93 * (n_ox (update_node W H m n) - n_x n)"
      "n_oy (update_node W H m n) - n_y (update_node W H m n)
        = 0.93 * (n_oy (update_node W H m n) - n_y n)"
      using a by (simp_all add: update_node_sel target_inactive lerp_offset LERP_RETURN_def)
    with update_node_inactive_gap [OF a, of W H n] g
    show "let n' = update_node W H m n in
         n_ox n' - n_x n' = 0.93 * (n_ox n' - n_x n)
       \<and> n_oy n' - n_y n' = 0.93 * (n_oy n' - n_y n)
       \<and> render_gap n' = 0.93 * dist_xy (n_x n) (n_y n) (n_ox n') (n_oy n')
       \<and> render_gap n' \<le> dist_xy (n_x n) (n_y n) (n_ox n') (n_oy n')"
      by (simp add: Let_def)
  qed
  have 2: "\<not> mouse_active m \<and> n_vx n = 0 \<and> n_vy n = 0 \<and> home_in_range W H n \<longrightarrow>
        render_gap (update_node W H m n) = 0.93 * render_gap n
      \<and> render_gap (update_node W H m n) \<le> render_gap n"
  proof
    assume a: "\<not> mouse_active m \<and> n_vx n = 0 \<and> n_vy n = 0 \<and> home_in_range W H n"
    then have "n_ox (update_node W H m n) = n_ox n" "n_oy (update_node W H m n) = n_oy n"
      by (simp_all add: update_node_sel drift_wrap_ox drift_wrap_oy home_in_range_def)
    with update_node_inactive_gap [of m W H n] a
    have e: "render_gap (update_node W H m n) = 0.93 * render_gap n"
      by (simp add: render_gap_def)
    have "0 \<le> render_gap n" by (simp add: render_gap_def dist_xy_nonneg)
    with e show "render_gap (update_node W H m n) = 0.93 * render_gap n
      \<and> render_gap (update_node W H m n) \<le> render_gap n" by simp
  qed
  have 3: "\<not> mouse_active m
        \<and> home_in_range W H (n \<lparr> n_ox := n_ox n + n_vx n, n_oy := n_oy n + n_vy n \<rparr>) \<longrightarrow>
        render_gap (update_node W H m n)
          \<le> 0.93 * (render_gap n + sqrt ((n_vx n)\<^sup>2 + (n_vy n)\<^sup>2))"
  proof
    assume a: "\<not> mouse_active m
        \<and> home_in_range W H (n \<lparr> n_ox := n_ox n + n_vx n, n_oy := n_oy n + n_vy n \<rparr>)"
    then have "n_ox (update_node W H m n) = n_ox n + n_vx n"
      "n_oy (update_node W H m n) = n_oy n + n_vy n"
      by (simp_all add: update_node_sel drift_wrap_ox drift_wrap_oy home_in_range_def)
    with update_node_inactive_gap [of m W H n] a
    have "render_gap (update_node W H m n)
        = 0.93 * dist_xy (n_x n) (n_y n) (n_ox n + n_vx n) (n_oy n + n_vy n)"
      by simp
    also have "\<dots> \<le> 0.93 * (dist_xy (n_x n) (n_y n) (n_ox n) (n_oy n)
        + sqrt ((n_vx n)\<^sup>2 + (n_vy n)\<^sup>2))"
      using dist_xy_moved [of "n_x n" "n_y n" "n_ox n" "n_vx n" "n_oy n" "n_vy n"] by simp
    finally show "render_gap (update_node W H m n)
          \<le> 0.93 * (render_gap n + sqrt ((n_vx n)\<^sup>2 + (n_vy n)\<^sup>2))"
      by (simp add: render_gap_def)
  qed
  obtain p' f where r: "animate_particle W H offscreen p = Some (p', f)"
     "p_baseX p' - p_x p' = 0.96 * (p_baseX p' - p_x p)"
     "p_baseY p' - p_y p' = 0.96 * (p_baseY p' - p_y p)"
     "render_gap_rep p' = 0.96 * dist_xy (p_x p) (p_y p) (p_baseX p') (p_baseY p')"
     "p_baseX p' = p_baseX (drift_wrap_rep W H p)"
     "p_baseY p' = p_baseY (drift_wrap_rep W H p)"
    using animate_particle_offscreen_gap [of W H p] by blast
  have r5: "render_gap_rep p' \<le> dist_xy (p_x p) (p_y p) (p_baseX p') (p_baseY p')"
    using r(4) dist_xy_nonneg [of "p_x p" "p_y p" "p_baseX p'" "p_baseY p'"] by simp
  have r6: "p_vx p = 0 \<and> p_vy p = 0 \<and> base_in_range W H p \<longrightarrow>
             render_gap_rep p' = 0.96 * render_gap_rep p \<and> render_gap_rep p' \<le> render_gap_rep p"
  proof
    assume a: "p_vx p = 0 \<and> p_vy p = 0 \<and> base_in_range W H p"
    then have "p_baseX p' = p_baseX p" "p_baseY p' = p_baseY p"
      by (simp_all add: r(5,6) drift_wrap_rep_bx drift_wrap_rep_by base_in_range_def)
    with r(4) r5
    show "render_gap_rep p' = 0.96 * render_gap_rep p \<and> render_gap_rep p' \<le> render_gap_rep p"
      by (simp add: render_gap_rep_def)
  qed
  have r7: "base_in_range W H (p \<lparr> p_baseX := p_baseX p + p_vx p, p_baseY := p_baseY p + p_vy p \<rparr>)
             \<longrightarrow> render_gap_rep p'
                   \<le> 0.96 * (render_gap_rep p + sqrt ((p_vx p)\<^sup>2 + (p_vy p)\<^sup>2))"
  proof
    assume "base_in_range W H (p \<lparr> p_baseX := p_baseX p + p_vx p, p_baseY := p_baseY p + p_vy p \<rparr>)"
    then have "p_baseX p' = p_baseX p + p_vx p" "p_baseY p' = p_baseY p + p_vy p"
      by (simp_all add: r(5,6) drift_wrap_rep_bx drift_wrap_rep_by base_in_range_def)
    with r(4) have "render_gap_rep p'
        = 0.96 * dist_xy (p_x p) (p_y p) (p_baseX p + p_vx p) (p_baseY p + p_vy p)"
      by simp
    also have "\<dots> \<le> 0.96 * (dist_xy (p_x p) (p_y p) (p_baseX p) (p_baseY p)
        + sqrt ((p_vx p)\<^sup>2 + (p_vy p)\<^sup>2))"
      using dist_xy_moved [of "p_x p" "p_y p" "p_baseX p" "p_vx p" "p_baseY p" "p_vy p"] by simp
    finally show "render_gap_rep p'
        \<le> 0.96 * (render_gap_rep p + sqrt ((p_vx p)\<^sup>2 + (p_vy p)\<^sup>2))"
      by (simp add: render_gap_rep_def)
  qed
  have 4: "\<exists>p' f. animate_particle W H offscreen p = Some (p', f)
        \<and> p_baseX p' - p_x p' = 0.96 * (p_baseX p' - p_x p)
        \<and> p_baseY p' - p_y p' = 0.96 * (p_baseY p' - p_y p)
        \<and> render_gap_rep p' = 0.96 * dist_xy (p_x p) (p_y p) (p_baseX p') (p_baseY p')
        \<and> render_gap_rep p' \<le> dist_xy (p_x p) (p_y p) (p_baseX p') (p_baseY p')
        \<and> (p_vx p = 0 \<and> p_vy p = 0 \<and> base_in_range W H p \<longrightarrow>
             render_gap_rep p' = 0.96 * render_gap_rep p \<and> render_gap_rep p' \<le> render_gap_rep p)
        \<and> (base_in_range W H (p \<lparr> p_baseX := p_baseX p + p_vx p, p_baseY := p_baseY p + p_vy p \<rparr>)
             \<longrightarrow> render_gap_rep p'
                   \<le> 0.96 * (render_gap_rep p + sqrt ((p_vx p)\<^sup>2 + (p_vy p)\<^sup>2)))"
    using r(1-4) r5 r6 r7 by blast
  from 1 2 3 4 show ?thesis by blast
qed

text \<open>
  The theorem at a node and a particle at rest, drawn 50 away from their home position,
  in a 1920 by 1080 viewport.
\<close>

theorem C3_inactive_convergence_witness:
  "render_gap (update_node 1920 1080 init_mouse displaced_node) = 0.93 * render_gap displaced_node
   \<and> render_gap (update_node 1920 1080 init_mouse displaced_node) \<le> render_gap displaced_node
   \<and> render_gap (update_node 1920 1080 init_mouse displaced_node)
       \<le> 0.93 * (render_gap displaced_node
                  + sqrt ((n_vx displaced_node)\<^sup>2 + (n_vy displaced_node)\<^sup>2))
   \<and> (\<exists>p' f. animate_particle 1920 1080 offscreen displaced_particle = Some (p', f)
         \<and> render_gap_rep p' = 0.96 * render_gap_rep displaced_particle
         \<and> render_gap_rep p'
             \<le> 0.96 * (render_gap_rep displaced_particle
                  + sqrt ((p_vx displaced_particle)\<^sup>2 + (p_vy displaced_particle)\<^sup>2)))"
proof -
  have h1: "\<not> mouse_active init_mouse" by (simp add: init_mouse_def)
  have h2: "n_vx displaced_node = 0" "n_vy displaced_node = 0"
    "home_in_range 1920 1080 displaced_node"
    "home_in_range 1920 1080 (displaced_node \<lparr> n_ox := n_ox displaced_node + n_vx displaced_node,
        n_oy := n_oy displaced_node + n_vy displaced_node \<rparr>)"
    by (simp_all add: displaced_node_def node_at_def home_in_range_def)
  have h3: "p_vx displaced_particle = 0" "p_vy displaced_particle = 0"
    "base_in_range 1920 1080 displaced_particle"
    "base_in_range 1920 1080
       (displaced_particle \<lparr> p_baseX := p_baseX displaced_particle + p_vx displaced_particle,
          p_baseY := p_baseY displaced_particle + p_vy displaced_particle \<rparr>)"
    by (simp_all add: displaced_particle_def particle_at_def base_in_range_def)
  from C3_inactive_convergence [of init_mouse 1920 1080 displaced_node displaced_particle]
    h1 h2 h3
  show ?thesis by blast
qed

subsection \<open>C4: the smoothed mouse of the grid while the mouse is inactive\<close>

text \<open>
  C4 asks that the smoothed mouse converges to the off-screen position
  \<open>(-9999, -9999)\<close> while the mouse is inactive, whatever the last raw position. The
  source interpolates towards the raw position in every frame, and towards \<open>-9999\<close>
  in addition while the mouse is inactive; \<open>onMouseLeave\<close> keeps the raw position. When
  the mouse moves to \<open>(500, 300)\<close>, \<open>j\<close> frames are painted and the mouse leaves,
  the smoothed mouse converges to \<open>(-221475 / 82, -232875 / 82)\<close>, about
  \<open>(-2700.9, -2839.9)\<close>, and from the first frame on it never is the off-screen
  position. When the mouse leaves after the smoothed mouse has arrived at \<open>(500, 300)\<close>,
  the smoothed mouse after \<open>k\<close> frames is at
  \<open>(-221475 / 82 + (209 / 250) ^ k * (500 + 221475 / 82),
    -232875 / 82 + (209 / 250) ^ k * (300 + 232875 / 82))\<close>: it stays above
  \<open>(-2701, -2841)\<close>, and the test \<open>mouse.x > -5000\<close> of the cursor hub holds in every
  frame.
\<close>

theorem C4_inactive_smoothing_rests_short_of_sentinel:
  "(\<lambda>k. pt_x (g_mouse ((animate_mouse ^^ k) (grid_left_after j 500 300))))
        \<longlonglongrightarrow> - 221475 / 82
   \<and> (\<lambda>k. pt_y (g_mouse ((animate_mouse ^^ k) (grid_left_after j 500 300))))
        \<longlonglongrightarrow> - 232875 / 82
   \<and> - 9999 < pt_x (g_mouse ((animate_mouse ^^ Suc k) (grid_left_after j 500 300)))
   \<and> g_mouse ((animate_mouse ^^ Suc k) (grid_left_after j 500 300)) \<noteq> offscreen
   \<and> pt_x (g_mouse ((animate_mouse ^^ k) (grid_left_at 500 300)))
       = - 221475 / 82 + (209 / 250) ^ k * (500 + 221475 / 82)
   \<and> pt_y (g_mouse ((animate_mouse ^^ k) (grid_left_at 500 300)))
       = - 232875 / 82 + (209 / 250) ^ k * (300 + 232875 / 82)
   \<and> - 2701 < pt_x (g_mouse ((animate_mouse ^^ k) (grid_left_at 500 300)))
   \<and> - 2841 < pt_y (g_mouse ((animate_mouse ^^ k) (grid_left_at 500 300)))
   \<and> hub_painted ((animate_mouse ^^ k) (grid_left_at 500 300))"
proof -
  have rx: "inactive_rest 500 = - 221475 / 82" and ry: "inactive_rest 300 = - 232875 / 82"
    by (simp_all add: inactive_rest_def)
  have lx: "(\<lambda>k. pt_x (g_mouse ((animate_mouse ^^ k) (grid_left_after j 500 300))))
        \<longlonglongrightarrow> - 221475 / 82"
    using inactive_limit(1) [OF grid_left_after_sel(1), of j 500 300]
    by (simp add: grid_left_after_sel rx)
  have ly: "(\<lambda>k. pt_y (g_mouse ((animate_mouse ^^ k) (grid_left_after j 500 300))))
        \<longlonglongrightarrow> - 232875 / 82"
    using inactive_limit(2) [OF grid_left_after_sel(1), of j 500 300]
    by (simp add: grid_left_after_sel ry)
  have ab: "- 9999 < pt_x (g_mouse ((animate_mouse ^^ Suc k) (grid_left_after j 500 300)))"
    by (rule left_frame_above_sentinel)
  have ne: "g_mouse ((animate_mouse ^^ Suc k) (grid_left_after j 500 300)) \<noteq> offscreen"
  proof
    assume "g_mouse ((animate_mouse ^^ Suc k) (grid_left_after j 500 300)) = offscreen"
    then have "pt_x (g_mouse ((animate_mouse ^^ Suc k) (grid_left_after j 500 300))) = - 9999"
      by (simp add: offscreen_def)
    with ab show False by simp
  qed
  have x: "pt_x (g_mouse ((animate_mouse ^^ k) (grid_left_at 500 300)))
      = - 221475 / 82 + (209 / 250) ^ k * (500 + 221475 / 82)"
    using funpow_inactive(1) [of "grid_left_at 500 300" k, OF grid_left_at_sel(1)]
    by (simp add: grid_left_at_sel rx)
  have y: "pt_y (g_mouse ((animate_mouse ^^ k) (grid_left_at 500 300)))
      = - 232875 / 82 + (209 / 250) ^ k * (300 + 232875 / 82)"
    using funpow_inactive(2) [of "grid_left_at 500 300" k, OF grid_left_at_sel(1)]
    by (simp add: grid_left_at_sel ry)
  have pos: "0 < (209 / 250 :: real) ^ k" by simp
  have xl: "- 2701 < pt_x (g_mouse ((animate_mouse ^^ k) (grid_left_at 500 300)))"
  proof -
    define q where "q = (209 / 250 :: real) ^ k * (500 + 221475 / 82)"
    have "0 < q" unfolding q_def using pos by (intro mult_pos_pos) simp_all
    moreover have "pt_x (g_mouse ((animate_mouse ^^ k) (grid_left_at 500 300)))
        = - 221475 / 82 + q"
      unfolding q_def by (rule x)
    ultimately show ?thesis by simp
  qed
  have yl: "- 2841 < pt_y (g_mouse ((animate_mouse ^^ k) (grid_left_at 500 300)))"
  proof -
    define q where "q = (209 / 250 :: real) ^ k * (300 + 232875 / 82)"
    have "0 < q" unfolding q_def using pos by (intro mult_pos_pos) simp_all
    moreover have "pt_y (g_mouse ((animate_mouse ^^ k) (grid_left_at 500 300)))
        = - 232875 / 82 + q"
      unfolding q_def by (rule y)
    ultimately show ?thesis by simp
  qed
  have hub: "hub_painted ((animate_mouse ^^ k) (grid_left_at 500 300))"
    using xl by (simp add: hub_painted_def)
  from lx ly ab ne x y xl yl hub show ?thesis by blast
qed

subsection \<open>C5: the wrap invariant of the home position\<close>

text \<open>
  C5. After the step of a frame, each coordinate of the home position of every node
  (margin 20) and of every particle (margin 10) lies between minus the margin and the
  viewport dimension plus the margin. A coordinate that the drift takes above the high
  bound is set to minus the margin, one that it takes below the low bound is set to the
  dimension plus the margin. The new x coordinate does not depend on the y coordinate,
  the y velocity or the height, and the other way round. The step of a particle and the
  frame of the repulsion field always return.
\<close>

theorem C5_home_wrap:
  "home_in_range W H (update_node W H m n)
   \<and> (n_ox n + n_vx n > real W + 20 \<longrightarrow> n_ox (update_node W H m n) = - 20)
   \<and> (n_ox n + n_vx n < - 20 \<longrightarrow> n_ox (update_node W H m n) = real W + 20)
   \<and> (n_oy n + n_vy n > real H + 20 \<longrightarrow> n_oy (update_node W H m n) = - 20)
   \<and> (n_oy n + n_vy n < - 20 \<longrightarrow> n_oy (update_node W H m n) = real H + 20)
   \<and> n_ox (update_node W H m n) = n_ox (drift_wrap W H' (n \<lparr> n_oy := a, n_vy := b \<rparr>))
   \<and> n_oy (update_node W H m n) = n_oy (drift_wrap W' H (n \<lparr> n_ox := a, n_vx := b \<rparr>))
   \<and> list_all (home_in_range (s_W s) (s_H s)) (s_nodes (fst (animate s)))
   \<and> (\<exists>p' f. animate_particle W H pm p = Some (p', f)
        \<and> base_in_range W H p'
        \<and> (p_baseX p + p_vx p > real W + 10 \<longrightarrow> p_baseX p' = - 10)
        \<and> (p_baseX p + p_vx p < - 10 \<longrightarrow> p_baseX p' = real W + 10)
        \<and> (p_baseY p + p_vy p > real H + 10 \<longrightarrow> p_baseY p' = - 10)
        \<and> (p_baseY p + p_vy p < - 10 \<longrightarrow> p_baseY p' = real H + 10)
        \<and> p_baseX p' = p_baseX (drift_wrap_rep W H' (p \<lparr> p_baseY := a, p_vy := b \<rparr>))
        \<and> p_baseY p' = p_baseY (drift_wrap_rep W' H (p \<lparr> p_baseX := a, p_vx := b \<rparr>)))
   \<and> (\<exists>ps' fs. animate_particles W H pm ps = Some (ps', fs)
        \<and> list_all (base_in_range W H) ps')"
proof -
  have net: "home_in_range W H (update_node W H m n)"
    by (rule update_node_in_range)
  have wrap: "(n_ox n + n_vx n > real W + 20 \<longrightarrow> n_ox (update_node W H m n) = - 20)
     \<and> (n_ox n + n_vx n < - 20 \<longrightarrow> n_ox (update_node W H m n) = real W + 20)
     \<and> (n_oy n + n_vy n > real H + 20 \<longrightarrow> n_oy (update_node W H m n) = - 20)
     \<and> (n_oy n + n_vy n < - 20 \<longrightarrow> n_oy (update_node W H m n) = real H + 20)"
    by (simp add: update_node_sel drift_wrap_ox drift_wrap_oy)
  have indep: "n_ox (update_node W H m n) = n_ox (drift_wrap W H' (n \<lparr> n_oy := a, n_vy := b \<rparr>))
     \<and> n_oy (update_node W H m n) = n_oy (drift_wrap W' H (n \<lparr> n_ox := a, n_vx := b \<rparr>))"
    by (simp add: update_node_sel drift_wrap_ox drift_wrap_oy)
  have frame: "list_all (home_in_range (s_W s) (s_H s)) (s_nodes (fst (animate s)))"
    by (simp add: animate_nodes list_all_iff update_node_in_range)
  obtain p' f where 1: "animate_particle W H pm p = Some (p', f)"
    using animate_particle_total by blast
  note b = animate_particle_base [OF 1]
  have r1: "base_in_range W H p'"
    using drift_wrap_rep_in_range [of W H p] b(1,2) by (simp add: base_in_range_def)
  have r2: "(p_baseX p + p_vx p > real W + 10 \<longrightarrow> p_baseX p' = - 10)
        \<and> (p_baseX p + p_vx p < - 10 \<longrightarrow> p_baseX p' = real W + 10)
        \<and> (p_baseY p + p_vy p > real H + 10 \<longrightarrow> p_baseY p' = - 10)
        \<and> (p_baseY p + p_vy p < - 10 \<longrightarrow> p_baseY p' = real H + 10)"
    by (simp add: b(1,2) drift_wrap_rep_bx drift_wrap_rep_by)
  have r3: "p_baseX p' = p_baseX (drift_wrap_rep W H' (p \<lparr> p_baseY := a, p_vy := b \<rparr>))
        \<and> p_baseY p' = p_baseY (drift_wrap_rep W' H (p \<lparr> p_baseX := a, p_vx := b \<rparr>))"
    by (simp add: b(1,2) drift_wrap_rep_bx drift_wrap_rep_by)
  have rep: "\<exists>p' f. animate_particle W H pm p = Some (p', f)
        \<and> base_in_range W H p'
        \<and> (p_baseX p + p_vx p > real W + 10 \<longrightarrow> p_baseX p' = - 10)
        \<and> (p_baseX p + p_vx p < - 10 \<longrightarrow> p_baseX p' = real W + 10)
        \<and> (p_baseY p + p_vy p > real H + 10 \<longrightarrow> p_baseY p' = - 10)
        \<and> (p_baseY p + p_vy p < - 10 \<longrightarrow> p_baseY p' = real H + 10)
        \<and> p_baseX p' = p_baseX (drift_wrap_rep W H' (p \<lparr> p_baseY := a, p_vy := b \<rparr>))
        \<and> p_baseY p' = p_baseY (drift_wrap_rep W' H (p \<lparr> p_baseX := a, p_vx := b \<rparr>))"
    using 1 r1 r2 r3 by blast
  have reps: "\<exists>ps' fs. animate_particles W H pm ps = Some (ps', fs)
        \<and> list_all (base_in_range W H) ps'"
    using animate_particles_total [of W H pm ps] by blast
  from net wrap indep frame rep reps show ?thesis by blast
qed

text \<open>
  The theorem at a node and a particle that leave on the right and at the top, and at
  a node and a particle that leave on the left and at the bottom, of a 1920 by 1080
  viewport.
\<close>

theorem C5_home_wrap_witness:
  "n_ox (update_node 1920 1080 init_mouse (node_at 1939.9 (- 19.9) 0.15 (- 0.15))) = - 20
   \<and> n_oy (update_node 1920 1080 init_mouse (node_at 1939.9 (- 19.9) 0.15 (- 0.15))) = 1100
   \<and> n_ox (update_node 1920 1080 init_mouse (node_at (- 19.9) 1099.9 (- 0.15) 0.15)) = 1940
   \<and> n_oy (update_node 1920 1080 init_mouse (node_at (- 19.9) 1099.9 (- 0.15) 0.15)) = - 20
   \<and> (\<exists>p' f. animate_particle 1920 1080 offscreen (particle_at 1929.9 (- 9.9) 0.3 (- 0.3))
                 = Some (p', f) \<and> p_baseX p' = - 10 \<and> p_baseY p' = 1090)
   \<and> (\<exists>p' f. animate_particle 1920 1080 offscreen (particle_at (- 9.9) 1089.9 (- 0.3) 0.3)
                 = Some (p', f) \<and> p_baseX p' = 1930 \<and> p_baseY p' = - 10)"
  using C5_home_wrap [of 1920 1080 init_mouse "node_at 1939.9 (- 19.9) 0.15 (- 0.15)"
      1080 0 0 1920 "\<lparr> s_W = 1920, s_H = 1080, s_nodes = [], s_mouse = init_mouse, s_t = 0 \<rparr>"
      offscreen "particle_at 1929.9 (- 9.9) 0.3 (- 0.3)" "[]"]
    C5_home_wrap [of 1920 1080 init_mouse "node_at (- 19.9) 1099.9 (- 0.15) 0.15"
      1080 0 0 1920 "\<lparr> s_W = 1920, s_H = 1080, s_nodes = [], s_mouse = init_mouse, s_t = 0 \<rparr>"
      offscreen "particle_at (- 9.9) 1089.9 (- 0.3) 0.3" "[]"]
  by (simp add: node_at_def particle_at_def) blast

subsection \<open>C6: an inactive pointer leaves the target at the home position\<close>

text \<open>
  C6. In the network, when the flag of the mouse is false (at the start, after
  \<open>onMouseLeave\<close> and after \<open>onTouchEnd\<close>), the target of every node is its home
  position and the frame interpolates the rendered position towards the home position.
  In the repulsion field, \<open>handleMouseLeave\<close> puts the mouse at \<open>(-9999, -9999)\<close>;
  with the mouse there the target of every particle whose home position is within the
  wrap bounds is its home position, and so is the target that a frame computes. From
  \<open>(-9999, -9999)\<close> every home position within the wrap bounds is further than each
  of the radii 150, 220, 250 and 280.
\<close>

theorem C6_inactive_pointer_target_is_home:
  "(\<not> mouse_active m \<longrightarrow>
       target m n = (n_ox n, n_oy n)
     \<and> n_x (update_node W H m n) = lerp (n_x n) (n_ox (update_node W H m n)) (LERP_RETURN + 0.04)
     \<and> n_y (update_node W H m n) = lerp (n_y n) (n_oy (update_node W H m n)) (LERP_RETURN + 0.04))
   \<and> target init_mouse n = (n_ox n, n_oy n)
   \<and> target (s_mouse (onMouseLeave s)) n = (n_ox n, n_oy n)
   \<and> target (s_mouse (onTouchEnd s)) n = (n_ox n, n_oy n)
   \<and> r_mouse (handleMouseLeave rs) = offscreen
   \<and> (base_in_range W H p \<longrightarrow> repel_target offscreen p = Some (p_baseX p, p_baseY p))
   \<and> (\<exists>p' f. animate_particle W H offscreen p = Some (p', f)
         \<and> p_x p' = lerp (p_x p) (p_baseX p') LERP_SPEED
         \<and> p_y p' = lerp (p_y p) (p_baseY p') LERP_SPEED)
   \<and> (home_in_range W H n \<longrightarrow>
         dist_xy (n_ox n) (n_oy n) (- 9999) (- 9999) > MOUSE_RADIUS
       \<and> dist_xy (n_ox n) (n_oy n) (- 9999) (- 9999) > MOUSE_CONNECT_DIST)
   \<and> (base_in_range W H p \<longrightarrow>
         dist_xy (p_baseX p) (p_baseY p) (pt_x offscreen) (pt_y offscreen) > MOUSE_RADIUS_rep
       \<and> dist_xy (p_baseX p) (p_baseY p) (pt_x offscreen) (pt_y offscreen) > MOUSE_RADIUS
       \<and> dist_xy (p_baseX p) (p_baseY p) (pt_x offscreen) (pt_y offscreen) > GLOW_RADIUS)"
proof -
  have 1: "\<not> mouse_active m \<longrightarrow>
       target m n = (n_ox n, n_oy n)
     \<and> n_x (update_node W H m n) = lerp (n_x n) (n_ox (update_node W H m n)) (LERP_RETURN + 0.04)
     \<and> n_y (update_node W H m n) = lerp (n_y n) (n_oy (update_node W H m n)) (LERP_RETURN + 0.04)"
    by (simp add: target_inactive update_node_sel)
  have 2: "target init_mouse n = (n_ox n, n_oy n)"
    by (simp add: target_inactive init_mouse_def)
  have 3: "target (s_mouse (onMouseLeave s)) n = (n_ox n, n_oy n)"
    by (simp add: target_inactive onMouseLeave_def)
  have 4: "target (s_mouse (onTouchEnd s)) n = (n_ox n, n_oy n)"
    by (simp add: target_inactive onTouchEnd_def)
  have 5: "r_mouse (handleMouseLeave rs) = offscreen"
    by (simp add: handleMouseLeave_def)
  have 6: "base_in_range W H p \<longrightarrow> repel_target offscreen p = Some (p_baseX p, p_baseY p)"
    by (simp add: base_in_range_def repel_target_offscreen)
  have 7: "\<exists>p' f. animate_particle W H offscreen p = Some (p', f)
         \<and> p_x p' = lerp (p_x p) (p_baseX p') LERP_SPEED
         \<and> p_y p' = lerp (p_y p) (p_baseY p') LERP_SPEED"
    using animate_particle_offscreen [of W H p] by blast
  have 8: "home_in_range W H n \<longrightarrow>
         dist_xy (n_ox n) (n_oy n) (- 9999) (- 9999) > MOUSE_RADIUS
       \<and> dist_xy (n_ox n) (n_oy n) (- 9999) (- 9999) > MOUSE_CONNECT_DIST"
    using far_from_sentinel [of "n_ox n" "n_oy n"]
    by (auto simp add: home_in_range_def MOUSE_RADIUS_def MOUSE_CONNECT_DIST_def)
  have 9: "base_in_range W H p \<longrightarrow>
         dist_xy (p_baseX p) (p_baseY p) (pt_x offscreen) (pt_y offscreen) > MOUSE_RADIUS_rep
       \<and> dist_xy (p_baseX p) (p_baseY p) (pt_x offscreen) (pt_y offscreen) > MOUSE_RADIUS
       \<and> dist_xy (p_baseX p) (p_baseY p) (pt_x offscreen) (pt_y offscreen) > GLOW_RADIUS"
    using far_from_sentinel [of "p_baseX p" "p_baseY p"]
    by (auto simp add: base_in_range_def MOUSE_RADIUS_rep_def MOUSE_RADIUS_def GLOW_RADIUS_def
        offscreen_def)
  from 1 2 3 4 5 6 7 8 9 show ?thesis by blast
qed

text \<open>
  The theorem at the mouse of the start and at a node and a particle whose home position
  is \<open>(100, 200)\<close>, in a 1920 by 1080 viewport.
\<close>

theorem C6_inactive_pointer_target_is_home_witness:
  "target init_mouse (node_at 100 200 0.1 0.1)
     = (n_ox (node_at 100 200 0.1 0.1), n_oy (node_at 100 200 0.1 0.1))
   \<and> repel_target offscreen (particle_at 100 200 0.1 0.1)
     = Some (p_baseX (particle_at 100 200 0.1 0.1), p_baseY (particle_at 100 200 0.1 0.1))
   \<and> dist_xy (n_ox (node_at 100 200 0.1 0.1)) (n_oy (node_at 100 200 0.1 0.1)) (- 9999) (- 9999)
       > MOUSE_RADIUS
   \<and> dist_xy (p_baseX (particle_at 100 200 0.1 0.1)) (p_baseY (particle_at 100 200 0.1 0.1))
        (pt_x offscreen) (pt_y offscreen) > MOUSE_RADIUS_rep"
proof -
  have h: "\<not> mouse_active init_mouse" "home_in_range 1920 1080 (node_at 100 200 0.1 0.1)"
    "base_in_range 1920 1080 (particle_at 100 200 0.1 0.1)"
    by (simp_all add: init_mouse_def node_at_def particle_at_def home_in_range_def
        base_in_range_def)
  from C6_inactive_pointer_target_is_home
    [of init_mouse "node_at 100 200 0.1 0.1" 1920 1080 _ _ "particle_at 100 200 0.1 0.1"] h
  show ?thesis by blast
qed

subsection \<open>C7: the guard of the division by the distance\<close>

text \<open>
  C7. In the repulsion model the target is always computed without a division by zero
  (\<open>repel_target\<close> returns \<open>Some\<close>), and when the distance between the mouse and the
  home position is zero the target is the home position. So the step of a particle, the
  frame and every run of frames and mouse events return.
\<close>

theorem C7_zero_distance_guarded:
  "(\<exists>tg. repel_target m p = Some tg)
   \<and> (sqrt ((p_baseX p - pt_x m) * (p_baseX p - pt_x m)
            + (p_baseY p - pt_y m) * (p_baseY p - pt_y m)) = 0
        \<longrightarrow> repel_target m p = Some (p_baseX p, p_baseY p))
   \<and> (\<exists>p' f. animate_particle W H m p = Some (p', f))
   \<and> (\<exists>ps' fs. animate_particles W H m ps = Some (ps', fs))
   \<and> (\<exists>s'. rep_run s es = Some s')"
proof -
  have 1: "\<exists>tg. repel_target m p = Some tg"
    by (simp add: repel_target_eq)
  have 2: "sqrt ((p_baseX p - pt_x m) * (p_baseX p - pt_x m)
            + (p_baseY p - pt_y m) * (p_baseY p - pt_y m)) = 0
        \<longrightarrow> repel_target m p = Some (p_baseX p, p_baseY p)"
    by (simp add: repel_target_def Let_def)
  from 1 2 animate_particle_total [of W H m p] animate_particles_total [of W H m ps]
    rep_run_fixed [of s es]
  show ?thesis by blast
qed

text \<open>
  The theorem at a particle whose home position is the position of the mouse.
\<close>

theorem C7_zero_distance_guarded_witness:
  "repel_target \<lparr> pt_x = 400, pt_y = 300 \<rparr> (particle_at 400 300 0.1 0.2) = Some (400, 300)"
  using C7_zero_distance_guarded [of "\<lparr> pt_x = 400, pt_y = 300 \<rparr>" "particle_at 400 300 0.1 0.2"]
  by (simp add: particle_at_def)

subsection \<open>C8: the opacity of the edge between two nodes\<close>

text \<open>
  C8. Between two nodes whose rendered positions are at distance \<open>d\<close>, no edge is drawn
  when \<open>d \<ge> CONNECT_DIST\<close>; when \<open>d < CONNECT_DIST\<close> one edge is drawn, with the
  opacity \<open>(1 - d / CONNECT_DIST) * 0.35\<close>, which is positive, at most 0.35, and
  below 0.35 by \<open>d * (0.35 / CONNECT_DIST)\<close>, so that it tends to 0.35 as \<open>d\<close> tends
  to 0. The distance does not depend on the order of the two nodes. The frame draws the
  edge of every pair of indices \<open>i < j\<close>, and every stroke it draws in this part is the
  edge of such a pair or an edge from a node to the cursor.
\<close>

theorem C8_connection_opacity:
  "(CONNECT_DIST \<le> dist_xy (n_x a) (n_y a) (n_x b) (n_y b) \<longrightarrow> node_edge a b = [])
   \<and> (dist_xy (n_x a) (n_y a) (n_x b) (n_y b) < CONNECT_DIST \<longrightarrow>
        node_edge a b = [Stroke (n_x a) (n_y a) (n_x b) (n_y b) LINE_BASE_COLOR
          ((1 - dist_xy (n_x a) (n_y a) (n_x b) (n_y b) / CONNECT_DIST) * 0.35) 0.6]
      \<and> 0 < (1 - dist_xy (n_x a) (n_y a) (n_x b) (n_y b) / CONNECT_DIST) * 0.35
      \<and> (1 - dist_xy (n_x a) (n_y a) (n_x b) (n_y b) / CONNECT_DIST) * 0.35 \<le> 0.35
      \<and> 0.35 - (1 - dist_xy (n_x a) (n_y a) (n_x b) (n_y b) / CONNECT_DIST) * 0.35
          = dist_xy (n_x a) (n_y a) (n_x b) (n_y b) * (0.35 / CONNECT_DIST))
   \<and> ((\<lambda>d. (1 - d / CONNECT_DIST) * 0.35) \<longlongrightarrow> 0.35) (at 0)
   \<and> dist_xy (n_x a) (n_y a) (n_x b) (n_y b) = dist_xy (n_x b) (n_y b) (n_x a) (n_y a)
   \<and> (i < j \<and> j < length ns \<longrightarrow> set (node_edge (ns ! i) (ns ! j)) \<subseteq> set (draw_edges m ns))
   \<and> (op \<in> set (draw_edges m ns) \<longrightarrow>
        (\<exists>i j. i < j \<and> j < length ns \<and> op \<in> set (node_edge (ns ! i) (ns ! j)))
      \<or> (\<exists>i. i < length ns \<and> op \<in> set (mouse_edge m (ns ! i))))"
  using node_edge_far [of a b] node_edge_near [of a b]
    opacity_bounds [OF dist_xy_nonneg, of "n_x a" "n_y a" "n_x b" "n_y b"]
    opacity_limit dist_xy_commute [of "n_x a" "n_y a" "n_x b" "n_y b"]
    draw_edges_pairs [of i j ns m] draw_edges_only_pairs [of op m ns]
  by blast

text \<open>
  The theorem at two nodes at distance 180, and at two nodes at distance 90, whose edge
  has the opacity 0.175.
\<close>

theorem C8_connection_opacity_witness:
  "node_edge (node_at 0 0 0 0) (node_at 180 0 0 0) = []
   \<and> node_edge (node_at 0 0 0 0) (node_at 90 0 0 0)
       = [Stroke 0 0 90 0 LINE_BASE_COLOR 0.175 0.6]
   \<and> set (node_edge (pair_of_nodes ! 0) (pair_of_nodes ! 1))
       \<subseteq> set (draw_edges init_mouse pair_of_nodes)
   \<and> ((\<exists>i j. i < j \<and> j < length pair_of_nodes
          \<and> Stroke 0 0 90 0 LINE_BASE_COLOR 0.175 0.6
              \<in> set (node_edge (pair_of_nodes ! i) (pair_of_nodes ! j)))
      \<or> (\<exists>i. i < length pair_of_nodes
          \<and> Stroke 0 0 90 0 LINE_BASE_COLOR 0.175 0.6
              \<in> set (mouse_edge init_mouse (pair_of_nodes ! i))))"
proof -
  have far: "CONNECT_DIST \<le> dist_xy (n_x (node_at 0 0 0 0)) (n_y (node_at 0 0 0 0))
      (n_x (node_at 180 0 0 0)) (n_y (node_at 180 0 0 0))"
    by (simp add: node_at_def dist_xy_axis CONNECT_DIST_def)
  have near: "dist_xy (n_x (node_at 0 0 0 0)) (n_y (node_at 0 0 0 0))
      (n_x (node_at 90 0 0 0)) (n_y (node_at 90 0 0 0)) < CONNECT_DIST"
    by (simp add: node_at_def dist_xy_axis CONNECT_DIST_def)
  have ix: "(0::nat) < 1 \<and> 1 < length pair_of_nodes" by (simp add: pair_of_nodes_def)
  from C8_connection_opacity [of "node_at 0 0 0 0" "node_at 180 0 0 0"] far
  have 1: "node_edge (node_at 0 0 0 0) (node_at 180 0 0 0) = []" by blast
  from C8_connection_opacity [of "node_at 0 0 0 0" "node_at 90 0 0 0" 0 1 pair_of_nodes
      init_mouse] near ix
  have e: "node_edge (node_at 0 0 0 0) (node_at 90 0 0 0)
       = [Stroke (n_x (node_at 0 0 0 0)) (n_y (node_at 0 0 0 0))
            (n_x (node_at 90 0 0 0)) (n_y (node_at 90 0 0 0)) LINE_BASE_COLOR
            ((1 - dist_xy (n_x (node_at 0 0 0 0)) (n_y (node_at 0 0 0 0))
                    (n_x (node_at 90 0 0 0)) (n_y (node_at 90 0 0 0)) / CONNECT_DIST) * 0.35) 0.6]"
    and 3: "set (node_edge (pair_of_nodes ! 0) (pair_of_nodes ! 1))
       \<subseteq> set (draw_edges init_mouse pair_of_nodes)"
    by blast+
  have v: "(1 - dist_xy (n_x (node_at 0 0 0 0)) (n_y (node_at 0 0 0 0))
                    (n_x (node_at 90 0 0 0)) (n_y (node_at 90 0 0 0)) / CONNECT_DIST) * 0.35
      = 0.175"
    by (simp add: node_at_def dist_xy_axis CONNECT_DIST_def)
  have 2: "node_edge (node_at 0 0 0 0) (node_at 90 0 0 0)
       = [Stroke 0 0 90 0 LINE_BASE_COLOR 0.175 0.6]"
    unfolding e v by (simp add: node_at_def)
  have m: "Stroke 0 0 90 0 LINE_BASE_COLOR 0.175 0.6 \<in> set (draw_edges init_mouse pair_of_nodes)"
    using 3 unfolding pair_of_nodes_def by (simp add: 2)
  from C8_connection_opacity [of _ _ _ _ pair_of_nodes init_mouse
      "Stroke 0 0 90 0 LINE_BASE_COLOR 0.175 0.6"] m
  have 4: "(\<exists>i j. i < j \<and> j < length pair_of_nodes
          \<and> Stroke 0 0 90 0 LINE_BASE_COLOR 0.175 0.6
              \<in> set (node_edge (pair_of_nodes ! i) (pair_of_nodes ! j)))
      \<or> (\<exists>i. i < length pair_of_nodes
          \<and> Stroke 0 0 90 0 LINE_BASE_COLOR 0.175 0.6
              \<in> set (mouse_edge init_mouse (pair_of_nodes ! i)))"
    by blast
  from 1 2 3 4 show ?thesis by blast
qed

subsection \<open>C9: a frame writes the positions only\<close>

text \<open>
  C9. The step of a node leaves its drift velocity, radius and phase as they are; so do
  a frame and every run of frames and pointer events, for every node. The radius used
  to paint a node is the radius of the node times the pulse, computed for the painting
  only. In the repulsion field the step of a particle, the frame and every run of frames
  and mouse events leave the drift velocity, radius, colour and alpha of every particle
  as they are, and a particle is painted with them.
\<close>

theorem C9_frame_writes_positions_only:
  "fixed_of_node (update_node W H m n) = fixed_of_node n
   \<and> map fixed_of_node (s_nodes (fst (animate s))) = map fixed_of_node (s_nodes s)
   \<and> map fixed_of_node (s_nodes (run s es)) = map fixed_of_node (s_nodes s)
   \<and> (\<exists>glow. draw_node t m n =
         (if glow then [Halo (n_x n) (n_y n) (n_r n * (1 + sin (t * 2 + n_phase n) * 0.15) * 5)]
          else [])
         @ [Dot (n_x n) (n_y n) (n_r n * (1 + sin (t * 2 + n_phase n) * 0.15)) glow])
   \<and> (\<exists>p' f. animate_particle W H pm p = Some (p', f)
         \<and> fixed_of_particle p' = fixed_of_particle p
         \<and> f = Fill (p_x p') (p_y p') (p_radius p) (p_color p) (p_alpha p))
   \<and> (\<exists>ps' fs. animate_particles W H pm ps = Some (ps', fs)
         \<and> map fixed_of_particle ps' = map fixed_of_particle ps)
   \<and> (\<exists>rs'. rep_run rs res = Some rs'
         \<and> map fixed_of_particle (r_particles rs') = map fixed_of_particle (r_particles rs))"
proof -
  have 1: "map fixed_of_node (s_nodes (fst (animate s))) = map fixed_of_node (s_nodes s)"
    using step_fixed [of s Frame] by simp
  have 2: "\<exists>glow. draw_node t m n =
         (if glow then [Halo (n_x n) (n_y n) (n_r n * (1 + sin (t * 2 + n_phase n) * 0.15) * 5)]
          else [])
         @ [Dot (n_x n) (n_y n) (n_r n * (1 + sin (t * 2 + n_phase n) * 0.15)) glow]"
    by (simp add: draw_node_def Let_def)
  from update_node_fixed [of W H m n] 1 run_fixed [of s es] 2
    animate_particle_fixed [of W H pm p] animate_particles_fixed [of W H pm ps]
    rep_run_fixed [of rs res]
  show ?thesis by blast
qed

subsection \<open>C10: the attraction never overshoots the cursor\<close>

text \<open>
  C10. In the network, when the mouse is active and the distance \<open>d\<close> between the home
  position and the cursor is positive and below \<open>MOUSE_RADIUS\<close>, the target is the
  home position moved towards the cursor by the fraction
  \<open>f = (1 - d / MOUSE_RADIUS) * MOUSE_ATTRACT * 12\<close> of the way, with
  \<open>0 < f < 0.144\<close>: it is at distance \<open>f * d\<close> from the home position, which is at
  most \<open>0.144 * d\<close>, and at distance \<open>(1 - f) * d\<close> from the cursor.
\<close>

theorem C10_attraction_never_overshoots:
  assumes "mouse_active m"
    and "0 < dist_xy (n_ox n) (n_oy n) (mouse_x m) (mouse_y m)"
    and "dist_xy (n_ox n) (n_oy n) (mouse_x m) (mouse_y m) < MOUSE_RADIUS"
  shows "\<exists>f. f = (1 - dist_xy (n_ox n) (n_oy n) (mouse_x m) (mouse_y m) / MOUSE_RADIUS)
                  * MOUSE_ATTRACT * 12
     \<and> 0 < f \<and> f < 0.144
     \<and> target m n = (n_ox n + (mouse_x m - n_ox n) * f, n_oy n + (mouse_y m - n_oy n) * f)
     \<and> dist_xy (fst (target m n)) (snd (target m n)) (n_ox n) (n_oy n)
         = f * dist_xy (n_ox n) (n_oy n) (mouse_x m) (mouse_y m)
     \<and> dist_xy (fst (target m n)) (snd (target m n)) (mouse_x m) (mouse_y m)
         = (1 - f) * dist_xy (n_ox n) (n_oy n) (mouse_x m) (mouse_y m)
     \<and> dist_xy (fst (target m n)) (snd (target m n)) (n_ox n) (n_oy n)
         \<le> 0.144 * dist_xy (n_ox n) (n_oy n) (mouse_x m) (mouse_y m)"
proof -
  define d where "d = dist_xy (n_ox n) (n_oy n) (mouse_x m) (mouse_y m)"
  define f where "f = (1 - d / MOUSE_RADIUS) * MOUSE_ATTRACT * 12"
  have d: "0 < d" "d < MOUSE_RADIUS" using assms by (simp_all add: d_def)
  have f: "0 < f" "f < 0.144" using strength_bounds [OF d] by (simp_all add: f_def)
  have dd: "d = sqrt ((mouse_x m - n_ox n)\<^sup>2 + (mouse_y m - n_oy n)\<^sup>2)"
    by (simp add: d_def dist_xy_eq power2_commute)
  have t: "target m n = (n_ox n + (mouse_x m - n_ox n) * f, n_oy n + (mouse_y m - n_oy n) * f)"
    using assms(1) d by (simp add: target_def d_def [symmetric] Let_def f_def mult.assoc)
  have h: "dist_xy (fst (target m n)) (snd (target m n)) (n_ox n) (n_oy n) = f * d"
    using f(1) by (simp add: t dist_xy_offset dd)
  have "dist_xy (fst (target m n)) (snd (target m n)) (mouse_x m) (mouse_y m)
      = dist_xy (mouse_x m + (n_ox n - mouse_x m) * (1 - f))
          (mouse_y m + (n_oy n - mouse_y m) * (1 - f)) (mouse_x m) (mouse_y m)"
    by (simp add: t algebra_simps)
  also have "\<dots> = \<bar>1 - f\<bar> * sqrt ((n_ox n - mouse_x m)\<^sup>2 + (n_oy n - mouse_y m)\<^sup>2)"
    by (rule dist_xy_offset)
  also have "\<dots> = (1 - f) * d"
    using f(2) by (simp add: d_def dist_xy_eq)
  finally have g: "dist_xy (fst (target m n)) (snd (target m n)) (mouse_x m) (mouse_y m)
      = (1 - f) * d" .
  have le: "f * d \<le> 0.144 * d"
    using f(2) d(1) by (simp add: mult_right_mono)
  from f t h g le show ?thesis
    unfolding d_def [symmetric] f_def [symmetric] by (intro exI [of _ f]) simp
qed

text \<open>
  The theorem at the cursor at the origin and a node whose home position is at distance
  140.
\<close>

theorem C10_attraction_never_overshoots_witness:
  "target \<lparr> mouse_x = 0, mouse_y = 0, mouse_active = True \<rparr> (node_at 140 0 0 0)
     = (140 + (0 - 140) * ((1 - 140 / MOUSE_RADIUS) * MOUSE_ATTRACT * 12),
        0 + (0 - 0) * ((1 - 140 / MOUSE_RADIUS) * MOUSE_ATTRACT * 12))"
  using C10_attraction_never_overshoots
    [of "\<lparr> mouse_x = 0, mouse_y = 0, mouse_active = True \<rparr>" "node_at 140 0 0 0"]
  by (simp add: node_at_def dist_xy_axis MOUSE_RADIUS_def)

end
